theory Spec2Isabelle
  imports Main "HOL-Library.Word" "HOL-Library.AList"
begin

section \<open>Shared data: errors, dates, files\<close>

text \<open>
  A thrown JavaScript value. \<open>Error m\<close> is \<open>new Error(m)\<close>; \<open>AssertError n\<close> is the error
  built by \<open>BackupFileSystem.assert\<close> (its \<open>name\<close> is \<open>n\<close>); \<open>OsError c\<close> is an error of the
  runtime that carries the property \<open>code = c\<close>; \<open>RangeError\<close> is thrown by
  \<open>Date.prototype.toISOString\<close> on an invalid date; \<open>Thrown m\<close> is a thrown string;
  \<open>TypeError m\<close> is the \<open>TypeError\<close> with which the runtime refuses an argument.
  \<open>Uncaught e\<close> is an error \<open>e\<close> thrown inside the \<open>async\<close> executor of a \<open>new Promise\<close>: the
  promise is never settled, the caller that awaits it never resumes, no \<open>catch\<close> block
  sees \<open>e\<close>, and the runtime ends the process with the unhandled rejection.
  \<open>SyntaxError\<close> is thrown by \<open>JSON.parse\<close>. \<open>OutOfFuel\<close> is no error of the program: it is
  the result of the model of a scan of directories when the bound given for their depth
  is reached.
\<close>

datatype error =
  Error string | AssertError string | OsError string | NotFound | RangeError | SyntaxError
  | TypeError string | Thrown string | Uncaught error | OutOfFuel

text \<open>
  The property \<open>e.code\<close> of a caught value (\<open>None\<close> is \<open>undefined\<close>). Only the errors
  of the runtime that carry a code have one; \<open>new Error(m)\<close>, the errors built by
  \<open>BackupFileSystem.assert\<close> and a thrown string have none.
\<close>

fun err_code :: "error \<Rightarrow> string option" where
  "err_code (OsError c) = Some c"
| "err_code _ = None"

text \<open>
  \<open>await m\<close> followed by the rest \<open>f\<close> of an \<open>async\<close> function: a rejection of \<open>m\<close> ends
  the function with the same error.
\<close>

definition await :: "error + 'a \<Rightarrow> ('a \<Rightarrow> error + 'b) \<Rightarrow> error + 'b" where
  "await m f = (case m of Inl e \<Rightarrow> Inl e | Inr x \<Rightarrow> f x)"

type_synonym byte = "8 word"

text \<open>
  A JavaScript \<open>Date\<close>: its time value in milliseconds since the epoch (at most
  8.64e15 in absolute value), or \<open>InvalidDate\<close> (time value NaN).
\<close>

datatype date = Date int | InvalidDate

subsection \<open>Dates as ISO strings\<close>

text \<open>
  \<open>Date.prototype.toISOString\<close> is a built-in of the language. Its model follows ECMAScript:
  the time value is split into day number and time within the day, the day number into
  year, month and day of the proleptic Gregorian calendar, and the fields are printed as
  \<open>YYYY-MM-DDTHH:mm:ss.sssZ\<close>; a year outside 0..9999 is printed with a sign and six
  digits. An invalid date throws.
\<close>

text \<open>The character of a decimal digit.\<close>

definition digit_char :: "int \<Rightarrow> char" where
  "digit_char d = hd (drop (nat d) ''0123456789'' @ ''9'')"

text \<open>The last \<open>k\<close> decimal digits of \<open>n\<close>: \<open>n\<close> padded with zeros to \<open>k\<close> digits when it has no more.\<close>

fun pad_digits :: "nat \<Rightarrow> int \<Rightarrow> string" where
  "pad_digits 0 n = []"
| "pad_digits (Suc k) n = pad_digits k (n div 10) @ [digit_char (n mod 10)]"

definition msPerDay :: int where "msPerDay = 86400000"

definition Day :: "int \<Rightarrow> int" where "Day t = t div msPerDay"
definition HourFromTime :: "int \<Rightarrow> int" where "HourFromTime t = (t div 3600000) mod 24"
definition MinFromTime :: "int \<Rightarrow> int" where "MinFromTime t = (t div 60000) mod 60"
definition SecFromTime :: "int \<Rightarrow> int" where "SecFromTime t = (t div 1000) mod 60"
definition msFromTime :: "int \<Rightarrow> int" where "msFromTime t = t mod 1000"

text \<open>Year, month (1..12) and day of the month of a day number (days since 1970-01-01).\<close>

definition civil_from_days :: "int \<Rightarrow> int \<times> int \<times> int" where
  "civil_from_days z0 =
     (let z = z0 + 719468;
          era = z div 146097;
          doe = z - era * 146097;
          yoe = (doe - doe div 1460 + doe div 36524 - doe div 146096) div 365;
          y = yoe + era * 400;
          doy = doe - (365 * yoe + yoe div 4 - yoe div 100);
          mp = (5 * doy + 2) div 153;
          d = doy - (153 * mp + 2) div 5 + 1;
          m = (if mp < 10 then mp + 3 else mp - 9)
      in (if m \<le> 2 then y + 1 else y, m, d))"

definition YearFromTime :: "int \<Rightarrow> int" where
  "YearFromTime t = fst (civil_from_days (Day t))"
definition MonthFromTime :: "int \<Rightarrow> int" where
  "MonthFromTime t = fst (snd (civil_from_days (Day t)))"
definition DateFromTime :: "int \<Rightarrow> int" where
  "DateFromTime t = snd (snd (civil_from_days (Day t)))"

definition iso_year :: "int \<Rightarrow> string" where
  "iso_year y =
     (if 0 \<le> y \<and> y \<le> 9999 then pad_digits 4 y
      else (if y < 0 then ''-'' else ''+'') @ pad_digits 6 \<bar>y\<bar>)"

definition toISOString :: "date \<Rightarrow> error + string" where
  "toISOString d =
     (case d of
        InvalidDate \<Rightarrow> Inl RangeError
      | Date t \<Rightarrow>
          Inr (iso_year (YearFromTime t) @ ''-'' @ pad_digits 2 (MonthFromTime t) @ ''-''
                 @ pad_digits 2 (DateFromTime t) @ ''T'' @ pad_digits 2 (HourFromTime t) @ '':''
                 @ pad_digits 2 (MinFromTime t) @ '':'' @ pad_digits 2 (SecFromTime t) @ ''.''
                 @ pad_digits 3 (msFromTime t) @ ''Z''))"

text \<open>\<open>String.prototype.substr(start, length)\<close> and \<open>substr(start)\<close>, for \<open>start \<ge> 0\<close>.\<close>

definition substr :: "string \<Rightarrow> nat \<Rightarrow> nat \<Rightarrow> string" where
  "substr s start len = take len (drop start s)"

definition substr_from :: "string \<Rightarrow> nat \<Rightarrow> string" where
  "substr_from s start = drop start s"

subsection \<open>Numbers, files and paths\<close>

text \<open>A JavaScript number that is an integer, or NaN; \<open>`${n}`\<close> prints it.\<close>

datatype num = Num int | NaN

text \<open>The decimal digits of a number that is not negative.\<close>

function dec_digits :: "int \<Rightarrow> string" where
  "dec_digits n =
     (if n < 10 then [digit_char n]
      else dec_digits (n div 10) @ [digit_char (n mod 10)])"
  by pat_completeness auto
termination
  by (relation "measure nat") auto

declare dec_digits.simps [simp del]

definition int_to_string :: "int \<Rightarrow> string" where
  "int_to_string i = (if i < 0 then ''-'' @ dec_digits (- i) else dec_digits i)"

fun num_to_string :: "num \<Rightarrow> string" where
  "num_to_string (Num i) = int_to_string i"
| "num_to_string NaN = ''NaN''"

text \<open>
  The bytes of a file are held as characters (a \<open>char\<close> is one byte); a text file holds the
  UTF-8 bytes of its text. A string of the program is held as its UTF-8 bytes too, so a
  character outside ASCII counts as several here where the program counts one or two.
\<close>

type_synonym bytes = string

text \<open>What a path of the file system names: a regular file with its bytes, or a directory.\<close>

datatype fnode = RegFile bytes | Directory

text \<open>
  The times, mode and owner that \<open>lstat\<close> reports for a path. They are given for every
  path; creating or writing a file in the model leaves them as they are (there is no clock).
\<close>

record file_meta =
  m_mtime :: "int option"
  m_birthtime :: "int option"
  m_mode :: "int option"
  m_uid :: "int option"
  m_gid :: "int option"

text \<open>
  The file system: the paths that exist (in the order in which a directory lists them) and
  the metadata of every path. A path is looked up under the string that is passed to the
  system, so a relative and an absolute path are different names; \<open>.\<close> and the root \<open>/\<close>
  always exist. \<open>cwd\<close> is what \<open>Deno.cwd()\<close> answers: the current directory, or the error
  it throws (\<open>NotFound\<close> when the directory has been removed, a refusal when the process
  may not read it). \<open>faults\<close> gives, for a path, the code of the error other than not-found
  with which the system refuses to look the path up, if it does: a directory of the path
  may not be searched (\<open>EACCES\<close>), a name is longer than the system allows
  (\<open>ENAMETOOLONG\<close>), a component that is not the last is not a directory (\<open>ENOTDIR\<close>),
  and so on. The faults are given with the world; writing a file leaves them as they are.
\<close>

record world =
  nodes :: "(string \<times> fnode) list"
  meta :: "string \<Rightarrow> file_meta"
  cwd :: "error + string"
  faults :: "string \<Rightarrow> string option"

text \<open>\<open>Deno.FileInfo\<close>, the fields the program reads; a time is the time value of its \<open>Date\<close>.\<close>

record FileInfo =
  isFile :: bool
  isDirectory :: bool
  fsize :: int
  mtime :: "int option"
  birthtime :: "int option"
  mode :: "int option"
  uid :: "int option"
  gid :: "int option"

text \<open>What a path names, if anything.\<close>

definition node_at :: "world \<Rightarrow> string \<Rightarrow> fnode option" where
  "node_at w p = (if p = ''.'' \<or> p = ''/'' then Some Directory else map_of (nodes w) p)"

text \<open>
  The error other than not-found with which a lookup of the path ends, if any. A path that
  holds a NUL character never reaches the system: the runtime refuses it with a
  \<open>TypeError\<close>. Otherwise the error is the fault of the world for the path.
\<close>

definition lookup_error :: "world \<Rightarrow> string \<Rightarrow> error option" where
  "lookup_error w p =
     (if CHR 0x00 \<in> set p then Some (TypeError ''file name contained an unexpected NUL byte'')
      else map_option OsError (faults w p))"

text \<open>
  \<open>Deno.lstat\<close>: the information of the path; the error of the lookup; or the error
  \<open>Deno.errors.NotFound\<close> when the lookup goes through and nothing has the name. The size
  of a file is the number of its bytes; the size of a directory is taken as 0.
\<close>

definition lstat :: "world \<Rightarrow> string \<Rightarrow> error + FileInfo" where
  "lstat w p =
     (case lookup_error w p of
        Some e \<Rightarrow> Inl e
      | None \<Rightarrow>
          (case node_at w p of
             None \<Rightarrow> Inl NotFound
           | Some n \<Rightarrow>
               Inr \<lparr> isFile = (case n of RegFile _ \<Rightarrow> True | Directory \<Rightarrow> False),
                     isDirectory = (case n of RegFile _ \<Rightarrow> False | Directory \<Rightarrow> True),
                     fsize = (case n of RegFile c \<Rightarrow> int (length c) | Directory \<Rightarrow> 0),
                     mtime = m_mtime (meta w p), birthtime = m_birthtime (meta w p),
                     mode = m_mode (meta w p), uid = m_uid (meta w p),
                     gid = m_gid (meta w p) \<rparr>))"

text \<open>\<open>str.split(re)\<close> for a \<open>re\<close> that matches one character of a class.\<close>

fun split_on :: "(char \<Rightarrow> bool) \<Rightarrow> string \<Rightarrow> string list" where
  "split_on P [] = [[]]"
| "split_on P (c # cs) =
     (case split_on P cs of
        [] \<Rightarrow> [[c]]
      | w # ws \<Rightarrow> if P c then [] # w # ws else (c # w) # ws)"

text \<open>Strings joined with \<open>/\<close> between them.\<close>

fun join_segments :: "string list \<Rightarrow> string" where
  "join_segments [] = []"
| "join_segments [s] = s"
| "join_segments (s # t # ts) = s @ ''/'' @ join_segments (t # ts)"

text \<open>
  \<open>normalizeString\<close> of the standard library (path/_util.ts) for POSIX paths, told by
  segments: the library scans the characters and keeps the result so far in a string; here
  the segments between separators are taken one by one and the segments kept so far are
  held in \<open>kept\<close>, the last one first. An empty segment and \<open>.\<close> are dropped. \<open>..\<close>
  removes the last kept segment unless that is \<open>..\<close> itself or nothing is kept; then
  \<open>..\<close> is kept when the path may rise above its start and dropped otherwise.
\<close>

fun normalize_segments :: "bool \<Rightarrow> string list \<Rightarrow> string list \<Rightarrow> string list" where
  "normalize_segments allowAboveRoot kept [] = rev kept"
| "normalize_segments allowAboveRoot kept (s # ss) =
     (if s = [] \<or> s = ''.'' then normalize_segments allowAboveRoot kept ss
      else if s = ''..'' then
        (if kept \<noteq> [] \<and> hd kept \<noteq> ''..''
         then normalize_segments allowAboveRoot (tl kept) ss
         else if allowAboveRoot then normalize_segments allowAboveRoot (''..'' # kept) ss
         else normalize_segments allowAboveRoot kept ss)
      else normalize_segments allowAboveRoot (s # kept) ss)"

definition normalizeString :: "string \<Rightarrow> bool \<Rightarrow> string" where
  "normalizeString p allowAboveRoot =
     join_segments (normalize_segments allowAboveRoot [] (split_on (\<lambda>c. c = CHR ''/'') p))"

text \<open>\<open>path.normalize\<close> of the standard library (path/posix.ts).\<close>

definition path_normalize :: "string \<Rightarrow> string" where
  "path_normalize p =
     (if p = [] then ''.''
      else
        let isAbsolute = (hd p = CHR ''/'');
            trailingSeparator = (last p = CHR ''/'');
            n = normalizeString p (\<not> isAbsolute);
            n1 = (if n = [] \<and> \<not> isAbsolute then ''.'' else n);
            n2 = (if n1 \<noteq> [] \<and> trailingSeparator then n1 @ ''/'' else n1)
        in if isAbsolute then CHR ''/'' # n2 else n2)"

text \<open>
  \<open>path.join\<close> of the standard library (path/posix.ts): the non-empty arguments, separated
  by \<open>/\<close>, normalised; \<open>.\<close> when there is none. An empty first argument is dropped like
  any other, so the parts of an absolute path, joined again, give a relative path.
\<close>

definition path_join :: "string list \<Rightarrow> string" where
  "path_join parts =
     (let joined = join_segments (filter (\<lambda>s. s \<noteq> []) parts)
      in if joined = [] then ''.'' else path_normalize joined)"

text \<open>
  \<open>path.resolve\<close> of the standard library (path/posix.ts) with one argument. The argument
  is taken first; when it is empty or does not start with \<open>/\<close>, \<open>Deno.cwd()\<close> is called,
  which may throw, and its answer is put in front. The whole is normalised, without the
  separator at its end.
\<close>

definition path_resolve :: "world \<Rightarrow> string \<Rightarrow> error + string" where
  "path_resolve w fn =
     (let absolute = (fn \<noteq> [] \<and> hd fn = CHR ''/'')
      in await (if absolute then Inr [] else cwd w) (\<lambda>d.
           let resolvedPath = (if d = [] then [] else d @ ''/'') @ (if fn = [] then [] else fn @ ''/'');
               resolvedAbsolute = (absolute \<or> (d \<noteq> [] \<and> hd d = CHR ''/''));
               n = normalizeString resolvedPath (\<not> resolvedAbsolute)
           in Inr (if resolvedAbsolute then CHR ''/'' # n
                   else if n \<noteq> [] then n else ''.'')))"

text \<open>\<open>path.dirname\<close> and \<open>path.basename\<close>, for a path that does not end with a separator.\<close>

definition path_dirname :: "string \<Rightarrow> string" where
  "path_dirname p =
     (let d = rev (drop 1 (dropWhile (\<lambda>c. c \<noteq> CHR ''/'') (rev p)))
      in if CHR ''/'' \<notin> set p then ''.'' else if d = [] then ''/'' else d)"

definition path_basename :: "string \<Rightarrow> string" where
  "path_basename p = rev (takeWhile (\<lambda>c. c \<noteq> CHR ''/'') (rev p))"

text \<open>\<open>fn.split(path.SEP_PATTERN)\<close>, the pattern being \<open>/\/+/\<close>: a run of separators splits once.\<close>

fun squeeze_sep :: "string \<Rightarrow> string" where
  "squeeze_sep (c # d # cs) =
     (if c = CHR ''/'' \<and> d = CHR ''/'' then squeeze_sep (d # cs) else c # squeeze_sep (d # cs))"
| "squeeze_sep cs = cs"

definition split_sep :: "string \<Rightarrow> string list" where
  "split_sep fn = split_on (\<lambda>c. c = CHR ''/'') (squeeze_sep fn)"

text \<open>
  \<open>exists\<close> of the standard library (fs/exists.ts): \<open>lstat\<close> the path and answer \<open>true\<close>;
  \<open>NotFound\<close> is caught and answered \<open>false\<close>, any other error is thrown again.
\<close>

definition std_exists :: "world \<Rightarrow> string \<Rightarrow> error + bool" where
  "std_exists w p =
     (case lstat w p of
        Inr _ \<Rightarrow> Inr True
      | Inl e \<Rightarrow> (if e = NotFound then Inr False else Inl e))"


text \<open>
  \<open>Deno.mkdir\<close> (not recursive): the lookup must go through, the path must be new and its
  parent a directory.
\<close>

definition Deno_mkdir :: "world \<Rightarrow> string \<Rightarrow> error + world" where
  "Deno_mkdir w p =
     (case lookup_error w p of
        Some e \<Rightarrow> Inl e
      | None \<Rightarrow>
          if node_at w p \<noteq> None then Inl (OsError ''AlreadyExists'')
          else if node_at w (path_dirname p) \<noteq> Some Directory then Inl NotFound
          else Inr (w\<lparr> nodes := AList.update p Directory (nodes w) \<rparr>))"

text \<open>Opening a file for reading and reading it to the end.\<close>

definition read_file :: "world \<Rightarrow> string \<Rightarrow> error + bytes" where
  "read_file w p =
     (case lookup_error w p of
        Some e \<Rightarrow> Inl e
      | None \<Rightarrow>
          (case node_at w p of
             None \<Rightarrow> Inl NotFound
           | Some Directory \<Rightarrow> Inl (OsError ''EISDIR'')
           | Some (RegFile c) \<Rightarrow> Inr c))"

text \<open>Opening a file with \<open>write, create, truncate\<close>.\<close>

definition create_file :: "world \<Rightarrow> string \<Rightarrow> error + world" where
  "create_file w p =
     (case lookup_error w p of
        Some e \<Rightarrow> Inl e
      | None \<Rightarrow>
          (case node_at w p of
             Some Directory \<Rightarrow> Inl (OsError ''EISDIR'')
           | Some (RegFile _) \<Rightarrow> Inr (w\<lparr> nodes := AList.update p (RegFile []) (nodes w) \<rparr>)
           | None \<Rightarrow>
               if node_at w (path_dirname p) \<noteq> Some Directory then Inl NotFound
               else Inr (w\<lparr> nodes := AList.update p (RegFile []) (nodes w) \<rparr>)))"

text \<open>Writing at the end of an open file: the path is that of the file that was opened.\<close>

definition append_file :: "world \<Rightarrow> string \<Rightarrow> bytes \<Rightarrow> world" where
  "append_file w p data =
     (case map_of (nodes w) p of
        Some (RegFile c) \<Rightarrow> w\<lparr> nodes := AList.update p (RegFile (c @ data)) (nodes w) \<rparr>
      | _ \<Rightarrow> w)"

text \<open>
  fs.ts, \<open>mkdirp\<close>. The first loop pops parts of the path until the joined parts name a
  directory (a file there throws); \<open>mkdirp_find\<close> takes the parts reversed and returns
  how many are left. The second loop makes the directories of the remaining parts.
\<close>

fun mkdirp_find :: "world \<Rightarrow> string \<Rightarrow> string list \<Rightarrow> error + nat" where
  "mkdirp_find w fn [] = Inr 0"
| "mkdirp_find w fn (x # xs) =
     (case lstat w (path_join (rev (x # xs))) of
        Inr st \<Rightarrow>
          if isDirectory st then Inr (length (x # xs))
          else Inl (Error (''mkdirp: part of path is a file: '' @ fn))
      | Inl e \<Rightarrow> if e = NotFound then mkdirp_find w fn xs else Inl e)"

fun mkdirp_add :: "world \<Rightarrow> string list \<Rightarrow> string list \<Rightarrow> error + world" where
  "mkdirp_add w parts [] = Inr w"
| "mkdirp_add w parts (a # add) =
     (case Deno_mkdir w (path_join (parts @ [a])) of
        Inl e \<Rightarrow> Inl e
      | Inr w' \<Rightarrow> mkdirp_add w' (parts @ [a]) add)"

definition mkdirp :: "world \<Rightarrow> string \<Rightarrow> error + world" where
  "mkdirp w fn =
     (case mkdirp_find w fn (rev (split_sep fn)) of
        Inl e \<Rightarrow> Inl e
      | Inr start \<Rightarrow> mkdirp_add w (take start (split_sep fn)) (drop start (split_sep fn)))"

text \<open>What \<open>JSON.parse\<close> returns: a string, or another value.\<close>

datatype json = JString string | JOther

text \<open>
  The primitives of the libraries the program imports: the SHA-256 digest in hexadecimal,
  gzip compression, and decompression, which throws on bytes that are not a gzip stream;
  whether \<open>Deno.build.os\<close> is \<open>windows\<close>; and \<open>JSON.parse\<close>, which throws on a text
  that is not JSON.
\<close>

record env =
  sha256 :: "bytes \<Rightarrow> string"
  gzip :: "bytes \<Rightarrow> bytes"
  gunzip :: "bytes \<Rightarrow> error + bytes"
  windows :: bool
  json_parse :: "string \<Rightarrow> error + json"

text \<open>
  fs.ts, \<open>zip\<close>: both files are opened inside the executor of a \<open>new Promise\<close> (an error
  there is not caught), the target is truncated, and the compressed bytes of the source are
  written to it.
\<close>

definition fs_zip :: "env \<Rightarrow> world \<Rightarrow> string \<Rightarrow> string \<Rightarrow> error + world" where
  "fs_zip ev w from to =
     (case read_file w from of
        Inl e \<Rightarrow> Inl (Uncaught e)
      | Inr _ \<Rightarrow>
          (case create_file w to of
             Inl e \<Rightarrow> Inl (Uncaught e)
           | Inr w1 \<Rightarrow>
               (case read_file w1 from of
                  Inl e \<Rightarrow> Inl (Uncaught e)
                | Inr c \<Rightarrow> Inr (append_file w1 to (gzip ev c)))))"

text \<open>
  fs.ts, \<open>chstat\<close> without \<open>old\<close>: mode, owner and modification time of \<open>stat\<close> are set
  where they are not null.
\<close>

definition chstat_meta :: "FileInfo \<Rightarrow> file_meta \<Rightarrow> file_meta" where
  "chstat_meta st m =
     (let m1 = (case mode st of None \<Rightarrow> m | Some md \<Rightarrow> m\<lparr> m_mode := Some md \<rparr>);
          m2 = (case (uid st, gid st) of
                  (Some u, Some g) \<Rightarrow> m1\<lparr> m_uid := Some u, m_gid := Some g \<rparr>
                | _ \<Rightarrow> m1)
      in (case mtime st of None \<Rightarrow> m2 | Some t \<Rightarrow> m2\<lparr> m_mtime := Some t \<rparr>))"

text \<open>fs.ts, \<open>copy\<close> between two paths: the bytes, then the metadata of the source.\<close>

definition fs_copy :: "world \<Rightarrow> string \<Rightarrow> string \<Rightarrow> error + world" where
  "fs_copy w from to =
     (case read_file w from of
        Inl e \<Rightarrow> Inl e
      | Inr _ \<Rightarrow>
          (case create_file w to of
             Inl e \<Rightarrow> Inl e
           | Inr w1 \<Rightarrow>
               (case read_file w1 from of
                  Inl e \<Rightarrow> Inl e
                | Inr c \<Rightarrow>
                    (case lstat w1 from of
                       Inl e \<Rightarrow> Inl e
                     | Inr st \<Rightarrow>
                         let w2 = append_file w1 to c
                         in Inr (w2\<lparr> meta := (meta w2)(to := chstat_meta st (meta w2 to)) \<rparr>)))))"

text \<open>fs.ts, \<open>hashZip\<close>: the digest of the decompressed bytes of a file.\<close>

definition fs_hashZip :: "env \<Rightarrow> world \<Rightarrow> string \<Rightarrow> error + string" where
  "fs_hashZip ev w zipped =
     (case read_file w zipped of
        Inl e \<Rightarrow> Inl e
      | Inr z \<Rightarrow> (case gunzip ev z of Inl e \<Rightarrow> Inl e | Inr c \<Rightarrow> Inr (sha256 ev c)))"

text \<open>
  fs.ts, \<open>compareZipWith\<close>: the promise resolves to whether the decompressed bytes of the
  first file are the bytes of the second; the files are opened, and the bytes decompressed,
  inside the executor of a \<open>new Promise\<close>.
\<close>

definition fs_compareZipWith :: "env \<Rightarrow> world \<Rightarrow> string \<Rightarrow> string \<Rightarrow> error + bool" where
  "fs_compareZipWith ev w compressed file =
     (case read_file w compressed of
        Inl e \<Rightarrow> Inl (Uncaught e)
      | Inr z \<Rightarrow>
          (case read_file w file of
             Inl e \<Rightarrow> Inl (Uncaught e)
           | Inr c \<Rightarrow>
               (case gunzip ev z of Inl e \<Rightarrow> Inl (Uncaught e) | Inr u \<Rightarrow> Inr (u = c))))"

text \<open>fs.ts, \<open>hash\<close> and \<open>hashFile\<close> of a path: the digest of the bytes of the file.\<close>

definition fs_hashFile :: "env \<Rightarrow> world \<Rightarrow> string \<Rightarrow> error + string" where
  "fs_hashFile ev w file =
     (case read_file w file of Inl e \<Rightarrow> Inl e | Inr c \<Rightarrow> Inr (sha256 ev c))"

section \<open>hash-filesystem-v5.ts\<close>

text \<open>
  A key: hash and size, the name \<open>hh/hh/hash\<close>, and the path of the object, which is the
  root joined with \<open>name.size\<close>.
\<close>

record Key =
  k_hash :: string
  k_size :: num
  k_name :: string
  k_path :: string

record HashFileSystemV5 =
  hfs_root :: string

definition hash2name :: "string \<Rightarrow> string" where
  "hash2name h = path_join [substr h 0 2, substr h 2 2, h]"

definition getKey :: "HashFileSystemV5 \<Rightarrow> string \<Rightarrow> num \<Rightarrow> Key" where
  "getKey hfs h sz =
     \<lparr> k_hash = h, k_size = sz, k_name = hash2name h,
       k_path = path_join [hfs_root hfs, hash2name h @ ''.'' @ num_to_string sz] \<rparr>"

text \<open>\<open>exists\<close>, \<open>store\<close>, \<open>compare\<close> and \<open>hashKey\<close>.\<close>

definition hfs_exists :: "world \<Rightarrow> Key \<Rightarrow> error + bool" where
  "hfs_exists w key = std_exists w (k_path key)"

definition hfs_store :: "env \<Rightarrow> world \<Rightarrow> HashFileSystemV5 \<Rightarrow> string \<Rightarrow> Key \<Rightarrow> bool \<Rightarrow> error + world" where
  "hfs_store ev w hfs file key isCompressedStream =
     (case mkdirp w (path_join [hfs_root hfs, path_dirname (k_name key)]) of
        Inl e \<Rightarrow> Inl e
      | Inr w1 \<Rightarrow>
          if isCompressedStream then fs_copy w1 file (k_path key)
          else fs_zip ev w1 file (k_path key))"

definition hfs_compare :: "env \<Rightarrow> world \<Rightarrow> Key \<Rightarrow> string \<Rightarrow> error + bool" where
  "hfs_compare ev w key file = fs_compareZipWith ev w (k_path key) file"

definition hfs_hashKey :: "env \<Rightarrow> world \<Rightarrow> Key \<Rightarrow> error + string" where
  "hfs_hashKey ev w key = fs_hashZip ev w (k_path key)"

section \<open>backup-filesystem.ts\<close>

text \<open>
  A \<open>BackupFileSystem\<close>: \<open>root\<close> and \<open>hfs\<close> are null until \<open>setLocation\<close> is called. The
  constants are the messages of \<open>ERROR\<close> that the calls of \<open>assert\<close> pass as the name.
\<close>

record BackupFileSystem =
  bfs_root :: "string option"
  bfs_hfs :: "HashFileSystemV5 option"

definition SETLOCATION_NOT_CALLED :: string where "SETLOCATION_NOT_CALLED = ''setLocation not called''"
definition NOT_FOUND :: string where "NOT_FOUND = ''Not found''"
definition ENTRY_CORRUPT :: string where "ENTRY_CORRUPT = ''files.db entry corrupt''"

text \<open>\<open>BackupFileSystem.assert\<close>.\<close>

definition bfs_assert :: "bool \<Rightarrow> string \<Rightarrow> error + unit" where
  "bfs_assert test name = (if \<not> test then Inl (AssertError name) else Inr ())"

text \<open>What \<open>put\<close> returns.\<close>

record put_result =
  stored :: bool

text \<open>
  \<open>BackupFileSystem.put\<close>. The variable \<open>stored\<close> is set to \<open>true\<close> at its declaration and
  never assigned again.
\<close>

definition bfs_put ::
  "env \<Rightarrow> world \<Rightarrow> BackupFileSystem \<Rightarrow> string \<Rightarrow> num \<Rightarrow> string \<Rightarrow> bool option
     \<Rightarrow> error + put_result \<times> world" where
  "bfs_put ev w bfs file sz h compressed =
     await (bfs_assert (bfs_hfs bfs \<noteq> None) SETLOCATION_NOT_CALLED) (\<lambda>_.
       case bfs_hfs bfs of
         None \<Rightarrow> Inr (\<lparr> stored = True \<rparr>, w)
       | Some hfs \<Rightarrow>
           await (hfs_exists w (getKey hfs h sz)) (\<lambda>ex.
             if \<not> ex then
               await (hfs_store ev w hfs file (getKey hfs h sz)
                        (case compressed of None \<Rightarrow> False | Some c \<Rightarrow> c)) (\<lambda>w'.
                 Inr (\<lparr> stored = True \<rparr>, w'))
             else Inr (\<lparr> stored = True \<rparr>, w)))"

text \<open>
  \<open>BackupFileSystem.verify\<close>. The boolean that \<open>hfs.compare\<close> resolves to is not used.
\<close>

definition bfs_verify ::
  "env \<Rightarrow> world \<Rightarrow> BackupFileSystem \<Rightarrow> num \<Rightarrow> string \<Rightarrow> string option \<Rightarrow> error + unit" where
  "bfs_verify ev w bfs sz h compareWith =
     await (bfs_assert (bfs_hfs bfs \<noteq> None) SETLOCATION_NOT_CALLED) (\<lambda>_.
       case bfs_hfs bfs of
         None \<Rightarrow> Inr ()
       | Some hfs \<Rightarrow>
           await (hfs_exists w (getKey hfs h sz)) (\<lambda>ex.
           await (bfs_assert ex NOT_FOUND) (\<lambda>_.
           await (hfs_hashKey ev w (getKey hfs h sz)) (\<lambda>hash2.
           await (bfs_assert (hash2 = h) ENTRY_CORRUPT) (\<lambda>_.
             case compareWith of
               None \<Rightarrow> Inr ()
             | Some file \<Rightarrow>
                 if file = [] then Inr ()
                 else await (hfs_compare ev w (getKey hfs h sz) file) (\<lambda>_. Inr ()))))))"

section \<open>u8pipe.ts\<close>

text \<open>
  The state of a pipe made by \<open>getUint8Pipe\<close>: the queue of chunks and the counters. The
  MD5 digest kept beside each queued chunk is read by the debugging checks only and is left
  out.
\<close>

record pipe =
  chunks :: "byte list list"
  totBytesIn :: nat
  totBytesOut :: nat
  eof :: bool

definition getUint8Pipe :: pipe where
  "getUint8Pipe = \<lparr> chunks = [], totBytesIn = 0, totBytesOut = 0, eof = False \<rparr>"

definition writeSync :: "byte list \<Rightarrow> bool \<Rightarrow> pipe \<Rightarrow> pipe" where
  "writeSync chunk isLast s =
     s\<lparr> chunks := chunks s @ [chunk],
        totBytesIn := totBytesIn s + length chunk,
        eof := isLast \<rparr>"

text \<open>\<open>p.set(block, offset)\<close> on a buffer \<open>p\<close> that has room for the block at the offset.\<close>

definition buf_set :: "byte list \<Rightarrow> byte list \<Rightarrow> nat \<Rightarrow> byte list" where
  "buf_set p block offset = take offset p @ block @ drop (offset + length block) p"

text \<open>
  The first two statements of \<open>read\<close> after the wait: \<open>chunks.shift()\<close>, repeated while the
  chunk taken is empty. The result is the chunk and the queue left, or \<open>None\<close> when the queue
  ran out.
\<close>

fun shift_nonempty :: "byte list list \<Rightarrow> (byte list \<times> byte list list) option" where
  "shift_nonempty [] = None"
| "shift_nonempty (c # q) = (if c = [] then shift_nonempty q else Some (c, q))"

text \<open>
  The inner loop of \<open>read\<close>, \<open>while (block.byteLength <= p.byteLength - offset)\<close>, on the
  variables \<open>block\<close>, \<open>offset\<close>, \<open>p\<close>, the queue and \<open>totBytesOut\<close>: the block is copied
  into the buffer and the next chunk is shifted off the queue; the loop ends when the queue
  is empty (\<open>break\<close>) or when the block just shifted does not fit.
\<close>

fun fill :: "byte list \<Rightarrow> nat \<Rightarrow> byte list \<Rightarrow> byte list list \<Rightarrow> nat
    \<Rightarrow> byte list \<times> nat \<times> byte list \<times> byte list list \<times> nat" where
  "fill block offset p [] out =
     (if length block \<le> length p - offset
      then (block, offset + length block, buf_set p block offset, [], out + length block)
      else (block, offset, p, [], out))"
| "fill block offset p (c # q) out =
     (if length block \<le> length p - offset
      then fill c (offset + length block) (buf_set p block offset) q (out + length block)
      else (block, offset, p, c # q, out))"

text \<open>What \<open>read\<close> resolves to: a number of bytes, or \<open>null\<close>.\<close>

datatype read_result = Count nat | EndMarker

text \<open>
  \<open>read(p)\<close>: the result, the buffer and the pipe afterwards. \<open>None\<close> stands for a call
  that finds the queue empty before end of stream was signalled: it sleeps until a writer
  acts.
\<close>

definition read :: "byte list \<Rightarrow> pipe \<Rightarrow> (read_result \<times> byte list \<times> pipe) option" where
  "read p s =
     (if chunks s = [] \<and> \<not> eof s then None
      else case shift_nonempty (chunks s) of
        None \<Rightarrow> Some (EndMarker, p, s\<lparr> chunks := [] \<rparr>)
      | Some (chunk, q) \<Rightarrow>
          (case fill chunk 0 p q (totBytesOut s) of
             (block, offset, p', q', out) \<Rightarrow>
               if offset > 0 then Some (Count offset, p', s\<lparr> chunks := q', totBytesOut := out \<rparr>)
               else Some (Count (length p),
                          buf_set p (take (length p) block) 0,
                          s\<lparr> chunks := drop (length p) block # q',
                             totBytesOut := out + length p \<rparr>)))"

text \<open>
  A consumer of the pipe: one \<open>read\<close> per buffer size of the list, each into a fresh buffer,
  until \<open>read\<close> returns the end marker. The result is the bytes received, whether the end
  marker was reached, and the pipe.
\<close>

fun read_until_end :: "nat list \<Rightarrow> pipe \<Rightarrow> byte list \<times> bool \<times> pipe" where
  "read_until_end [] s = ([], False, s)"
| "read_until_end (n # ns) s =
     (case read (replicate n 0) s of
        None \<Rightarrow> ([], False, s)
      | Some (EndMarker, p, s') \<Rightarrow> ([], True, s')
      | Some (Count k, p, s') \<Rightarrow>
          (case read_until_end ns s' of (bs, done, s'') \<Rightarrow> (take k p @ bs, done, s'')))"

section \<open>filter.ts\<close>

text \<open>The separators of a path: \<open>/\<close> and the backslash (the class \<open>[\\/]\<close> of the source).\<close>

definition backslash :: char where "backslash = CHR 0x5C"

definition is_slash :: "char \<Rightarrow> bool" where
  "is_slash c = (c = CHR ''/'' \<or> c = backslash)"

text \<open>
  \<open>RegExp\<close> is a built-in of the language. The model covers the regular expressions that
  \<open>_init\<close> builds from a glob: a sequence, anchored at the start of the input by \<open>^\<close>, of
  literal characters, \<open>.\<close>, the class of separators and its complement, each possibly
  under \<open>*\<close> or \<open>+\<close>. There is no anchor at the end, so \<open>test\<close> succeeds when some
  prefix of the input matches the sequence.
\<close>

datatype re_atom = Lit char | AnyChar | Sep | NotSep
datatype re_term = One re_atom | Star re_atom | Plus re_atom
type_synonym regex = "re_term list"

text \<open>\<open>.\<close> matches any character but a line terminator.\<close>

fun atom_matches :: "re_atom \<Rightarrow> char \<Rightarrow> bool" where
  "atom_matches (Lit a) c = (c = a)"
| "atom_matches AnyChar c = (c \<noteq> CHR 0x0A \<and> c \<noteq> CHR 0x0D)"
| "atom_matches Sep c = is_slash c"
| "atom_matches NotSep c = (\<not> is_slash c)"

text \<open>\<open>re.test(str)\<close> for a regular expression without flags.\<close>

fun re_match :: "regex \<Rightarrow> string \<Rightarrow> bool" where
  "re_match [] s = True"
| "re_match (One a # r) [] = False"
| "re_match (One a # r) (c # cs) = (atom_matches a c \<and> re_match r cs)"
| "re_match (Star a # r) [] = re_match r []"
| "re_match (Star a # r) (c # cs) =
     (re_match r (c # cs) \<or> (atom_matches a c \<and> re_match (Star a # r) cs))"
| "re_match (Plus a # r) [] = False"
| "re_match (Plus a # r) (c # cs) = (atom_matches a c \<and> re_match (Star a # r) cs)"

text \<open>
  \<open>new RegExp(src)\<close>: the source is parsed; \<open>None\<close> stands for a source outside the
  fragment above (a glob with a character that is syntax in a regular expression, for which
  the constructor throws or builds an expression with groups, alternatives or assertions).
\<close>

definition is_syntax_char :: "char \<Rightarrow> bool" where
  "is_syntax_char c = (c \<in> set ''^$.*+?()[]{}|'' \<or> c = backslash)"

fun parse_atom :: "string \<Rightarrow> (re_atom \<times> string) option" where
  "parse_atom [] = None"
| "parse_atom (c # cs) =
     (if c = CHR ''.'' then Some (AnyChar, cs)
      else if c = CHR ''['' then
        (if take 5 cs = [CHR ''^'', CHR ''/'', backslash, backslash, CHR '']''] then Some (NotSep, drop 5 cs)
         else if take 4 cs = [CHR ''/'', backslash, backslash, CHR '']''] then Some (Sep, drop 4 cs)
         else if take 4 cs = [backslash, backslash, CHR ''/'', CHR '']''] then Some (Sep, drop 4 cs)
         else None)
      else if is_syntax_char c then None
      else Some (Lit c, cs))"

lemma parse_atom_shorter: "parse_atom s = Some (a, rest) \<Longrightarrow> length rest < length s"
  by (cases s) (auto split: if_splits)

function parse_terms :: "string \<Rightarrow> regex option" where
  "parse_terms s =
     (if s = [] then Some []
      else case parse_atom s of
        None \<Rightarrow> None
      | Some (a, rest) \<Rightarrow>
          (case rest of
             [] \<Rightarrow> Some [One a]
           | q # rest' \<Rightarrow>
               if q = CHR ''*'' then map_option ((#) (Star a)) (parse_terms rest')
               else if q = CHR ''+'' then map_option ((#) (Plus a)) (parse_terms rest')
               else map_option ((#) (One a)) (parse_terms rest)))"
  by pat_completeness auto
termination
  by (relation "measure length") (auto dest: parse_atom_shorter)

definition RegExp :: "string \<Rightarrow> regex option" where
  "RegExp src = (case src of c # cs \<Rightarrow> if c = CHR ''^'' then parse_terms cs else None | [] \<Rightarrow> None)"

text \<open>
  \<open>str.replace(re, rep)\<close> for a global \<open>re\<close>: scanning from the left, every match is
  replaced by \<open>rep\<close> and the scan goes on after it. The first argument gives the length
  of the match of \<open>re\<close> at the head of a string (0 when there is none).
\<close>

fun replace_by :: "(string \<Rightarrow> nat) \<Rightarrow> string \<Rightarrow> string \<Rightarrow> string" where
  "replace_by m rep [] = []"
| "replace_by m rep (c # cs) =
     (case m (c # cs) of
        0 \<Rightarrow> c # replace_by m rep cs
      | Suc k \<Rightarrow> rep @ replace_by m rep (drop k cs))"

fun at_starstar_slash :: "string \<Rightarrow> nat" where
  "at_starstar_slash (a # b # c # _) = (if a = CHR ''*'' \<and> b = CHR ''*'' \<and> is_slash c then 3 else 0)"
| "at_starstar_slash _ = 0"

definition at_literal :: "string \<Rightarrow> string \<Rightarrow> nat" where
  "at_literal needle s = (if take (length needle) s = needle then length needle else 0)"

fun at_char :: "(char \<Rightarrow> bool) \<Rightarrow> string \<Rightarrow> nat" where
  "at_char P (c # _) = (if P c then 1 else 0)"
| "at_char P [] = 0"

text \<open>
  The source of the regular expression of a glob \<open>p\<close>: the chain of seven \<open>replace\<close> calls
  in \<open>_init\<close>, innermost first. The third, \<open>.replace(/[.]/g, '\.')\<close>, puts \<open>.\<close> for
  \<open>.\<close>: in a string literal \<open>'\.'\<close> is the one character \<open>.\<close>.
\<close>

definition glob_to_source :: "string \<Rightarrow> string" where
  "glob_to_source p =
     ''^'' @
     replace_by (at_literal ''{STARSTARGLOBSLASH}'') (''.+['' @ [backslash, backslash] @ ''/]'')
      (replace_by (at_literal ''{STARSTARGLOB}'') ''.*''
        (replace_by (at_literal ''*'') (''[^/'' @ [backslash, backslash] @ '']*'')
          (replace_by (at_char is_slash) (''[/'' @ [backslash, backslash] @ '']'')
            (replace_by (at_char (\<lambda>c. c = CHR ''.'')) ''.''
              (replace_by (at_literal ''**'') ''{STARSTARGLOB}''
                (replace_by at_starstar_slash ''{STARSTARGLOBSLASH}'' p))))))"

text \<open>
  \<open>FilterItem\<close>. The type is \<open>pattern[0]\<close>, here the string of the first character (empty
  for an empty pattern, where the source has \<open>undefined\<close>).
\<close>

record FilterItem =
  ftype :: string
  fpattern :: "string list"
  re :: regex

text \<open>The object pushed for one pattern.\<close>

definition make_item :: "string \<Rightarrow> FilterItem option" where
  "make_item pattern =
     (case RegExp (glob_to_source (substr_from pattern 1)) of
        None \<Rightarrow> None
      | Some r \<Rightarrow> Some \<lparr> ftype = take 1 pattern, fpattern = split_on is_slash pattern, re = r \<rparr>)"

text \<open>The test \<open>p.substr(0,2) == '**' && (p[2] == '/' || p[2] == '\\')\<close>.\<close>

definition is_rooted_glob :: "string \<Rightarrow> bool" where
  "is_rooted_glob p = (substr p 0 2 = ''**'' \<and> 2 < length p \<and> is_slash (p ! 2))"

text \<open>
  The body of the loop of \<open>re\<close> in \<open>_init\<close> for one pattern: a glob that starts with
  \<open>**/\<close> first contributes the items of the glob without that prefix.
\<close>

function re_pattern :: "string \<Rightarrow> FilterItem list option" where
  "re_pattern pattern =
     (let type = take 1 pattern; p = substr_from pattern 1 in
      case (if is_rooted_glob p then re_pattern (type @ substr_from p 3) else Some []) of
        None \<Rightarrow> None
      | Some res \<Rightarrow> (case make_item pattern of None \<Rightarrow> None | Some it \<Rightarrow> Some (res @ [it])))"
  by pat_completeness auto
termination
  by (relation "measure length") (auto simp: is_rooted_glob_def substr_from_def)

text \<open>The function \<open>re\<close> of \<open>_init\<close>.\<close>

fun re_patterns :: "string list \<Rightarrow> FilterItem list option" where
  "re_patterns [] = Some []"
| "re_patterns (pattern # rest) =
     (case re_pattern pattern of
        None \<Rightarrow> None
      | Some its \<Rightarrow> (case re_patterns rest of None \<Rightarrow> None | Some res \<Rightarrow> Some (its @ res)))"

record Filter =
  filters :: "FilterItem list option"

text \<open>The constructor, from \<open>filters\<close> (patterns) or else from \<open>filterItems\<close>.\<close>

definition Filter_new :: "string list option \<Rightarrow> FilterItem list option \<Rightarrow> Filter option" where
  "Filter_new pats filterItems =
     (case pats of
        Some ps \<Rightarrow> map_option (\<lambda>its. \<lparr> filters = Some its \<rparr>) (re_patterns ps)
      | None \<Rightarrow> Some \<lparr> filters = filterItems \<rparr>)"

text \<open>\<open>Filter.ignores\<close>: the loop over the filters, with the variable \<open>ignored\<close>.\<close>

fun ignores_loop :: "FilterItem option \<Rightarrow> FilterItem list \<Rightarrow> string \<Rightarrow> FilterItem option" where
  "ignores_loop ignored [] str = ignored"
| "ignores_loop ignored (f # fs) str =
     ignores_loop
       (if re_match (re f) str then (if ftype f = ''-'' then Some f else None) else ignored)
       fs str"

definition ignores :: "Filter \<Rightarrow> string \<Rightarrow> FilterItem option" where
  "ignores F str = (case filters F of None \<Rightarrow> None | Some fs \<Rightarrow> ignores_loop None fs str)"

text \<open>
  The specification's words for \<open>ignores\<close>: the last filter, in list order, whose pattern
  matches the path.
\<close>

definition last_matching :: "FilterItem list \<Rightarrow> string \<Rightarrow> FilterItem option" where
  "last_matching fs str =
     (let ms = filter (\<lambda>f. re_match (re f) str) fs
      in if ms = [] then None else Some (last ms))"

section \<open>backup-log.ts\<close>

text \<open>
  A \<open>BackupLog\<close> object; \<open>log_file\<close> is the path of the file held open in the field \<open>log\<close>
  (\<open>None\<close> when no file is open).
\<close>

record BackupLog =
  log_root :: string
  log_userid :: string
  log_setname :: string
  log_file :: "string option"

definition getLogName :: "BackupLog \<Rightarrow> string \<Rightarrow> string" where
  "getLogName lg when =
     path_join [log_root lg, ''backups'', log_userid lg, log_setname lg @ ''.'' @ when]"


text \<open>The argument of \<open>parseWhen\<close>: a string or a \<open>Date\<close>.\<close>

datatype when_arg = WhenString string | WhenDate date

text \<open>The character class \<open>[\-:\.]\<close> and \<open>.replace(/[\-:\.]/g, '')\<close>.\<close>

definition is_sep :: "char \<Rightarrow> bool" where
  "is_sep c = (c = CHR ''-'' \<or> c = CHR '':'' \<or> c = CHR ''.'')"

definition strip_separators :: "string \<Rightarrow> string" where
  "strip_separators s = filter (\<lambda>c. \<not> is_sep c) s"

text \<open>
  \<open>BackupLog.parseWhen\<close>: the strings \<open>current\<close> and \<open>running\<close> are returned as they are;
  a \<open>Date\<close> is printed with \<open>toISOString\<close> (which may throw); the separators are removed.
\<close>

definition parseWhen :: "when_arg \<Rightarrow> error + string" where
  "parseWhen when =
     (case when of
        WhenString s \<Rightarrow>
          if s = ''current'' \<or> s = ''running'' then Inr s else Inr (strip_separators s)
      | WhenDate d \<Rightarrow>
          (case toISOString d of Inl e \<Rightarrow> Inl e | Inr str \<Rightarrow> Inr (strip_separators str)))"

text \<open>\<open>BackupLog.ext2iso\<close>.\<close>

definition ext2iso :: "string \<Rightarrow> string" where
  "ext2iso ext =
     substr ext 0 4 @ ''-'' @ substr ext 4 2 @ ''-'' @ substr ext 6 2
     @ ''T'' @ substr ext 9 2 @ '':'' @ substr ext 11 2 @ '':'' @ substr ext 13 2
     @ ''.'' @ substr_from ext 15"

text \<open>A field that holds a number or a string; a field that holds a \<open>Date\<close> or a string.\<close>

datatype num_or_str = NumV int | StrV string
datatype date_or_str = DateV date | DStr string

text \<open>\<open>BackupLog.FileEntry\<close>.\<close>

record FileEntry =
  e_type :: string
  e_mode :: num_or_str
  e_uid :: num_or_str
  e_gid :: num_or_str
  e_ctime :: date_or_str
  e_mtime :: date_or_str
  e_size :: num
  e_hash :: string
  e_path :: string

text \<open>
  A parsed line of a log: header (with the version), source (with the root), file or
  directory entry, status (with the status word), or unknown (with the line).
\<close>

datatype BackupLogEntry =
  Header string | Source string | Entry FileEntry | Status string | Unknown string

text \<open>\<open>n | 0\<close>: the number as a signed 32-bit integer (NaN gives 0).\<close>

fun to_int32 :: "num \<Rightarrow> int" where
  "to_int32 (Num n) = (n + 2147483648) mod 4294967296 - 2147483648"
| "to_int32 NaN = 0"

text \<open>\<open>mode.toString(8)\<close> for a number that is not negative.\<close>

function oct_digits :: "int \<Rightarrow> string" where
  "oct_digits n =
     (if n < 8 then [digit_char n]
      else oct_digits (n div 8) @ [digit_char (n mod 8)])"
  by pat_completeness auto
termination
  by (relation "measure nat") auto

declare oct_digits.simps [simp del]

fun num_or_str_to_string :: "num_or_str \<Rightarrow> string" where
  "num_or_str_to_string (NumV n) = int_to_string n"
| "num_or_str_to_string (StrV s) = s"

text \<open>
  \<open>JSON.stringify\<close> of a string: quotes around it; the quote, the backslash and the control
  characters escaped.
\<close>

definition hex_digit :: "nat \<Rightarrow> char" where
  "hex_digit n = (''0123456789abcdef'' ! (n mod 16))"

definition json_escape :: "char \<Rightarrow> string" where
  "json_escape c =
     (if c = CHR 0x22 then [backslash, CHR 0x22]
      else if c = backslash then [backslash, backslash]
      else if c = CHR 0x08 then [backslash, CHR ''b'']
      else if c = CHR 0x0C then [backslash, CHR ''f'']
      else if c = CHR 0x0A then [backslash, CHR ''n'']
      else if c = CHR 0x0D then [backslash, CHR ''r'']
      else if c = CHR 0x09 then [backslash, CHR ''t'']
      else if (of_char c :: nat) < 32 then
        [backslash, CHR ''u'', CHR ''0'', CHR ''0'',
         hex_digit ((of_char c :: nat) div 16), hex_digit (of_char c :: nat)]
      else [c])"

definition JSON_stringify :: "string \<Rightarrow> string" where
  "JSON_stringify s = [CHR 0x22] @ concat (map json_escape s) @ [CHR 0x22]"

fun date_or_str_to_string :: "date_or_str \<Rightarrow> error + string" where
  "date_or_str_to_string (DStr s) = Inr s"
| "date_or_str_to_string (DateV d) = toISOString d"

text \<open>
  \<open>BackupLog.entryToString\<close>; \<open>toISOString\<close> throws on an invalid date. The separators of
  the path are normalised to \<open>/\<close> before it is quoted.
\<close>

definition entryToString :: "FileEntry \<Rightarrow> error + string" where
  "entryToString e =
     (let md = (case e_mode e of StrV s \<Rightarrow> s
                | NumV n \<Rightarrow> if n < 0 then ''-'' @ oct_digits (- n) else oct_digits n)
      in await (date_or_str_to_string (e_ctime e)) (\<lambda>ct.
         await (date_or_str_to_string (e_mtime e)) (\<lambda>mt.
           Inr (e_type e @ '' '' @ num_or_str_to_string (e_uid e) @ '':''
                @ num_or_str_to_string (e_gid e) @ '':'' @ md @ '' '' @ ct @ '' '' @ mt
                @ '' - '' @ int_to_string (to_int32 (e_size e)) @ '' '' @ e_hash e @ '' 0 ''
                @ JSON_stringify (map (\<lambda>c. if c = backslash then CHR ''/'' else c) (e_path e))))))"

text \<open>\<open>_log()\<close>: the open file, or an error.\<close>

definition log_handle :: "BackupLog \<Rightarrow> error + string" where
  "log_handle lg =
     (case log_file lg of None \<Rightarrow> Inl (Error ''Log file is not open'') | Some p \<Rightarrow> Inr p)"

text \<open>\<open>writeEntry\<close>: one line is appended to the open file.\<close>

definition writeEntry :: "world \<Rightarrow> BackupLog \<Rightarrow> FileEntry \<Rightarrow> error + world" where
  "writeEntry w lg entry =
     await (log_handle lg) (\<lambda>p.
     await (entryToString entry) (\<lambda>line.
       Inr (append_file w p (line @ [CHR 0x0A]))))"

subsection \<open>Reading a log\<close>

text \<open>\<open>words[i]\<close>: \<open>None\<close> is \<open>undefined\<close>, which a template prints as \<open>undefined\<close>.\<close>

definition nth_word :: "string list \<Rightarrow> nat \<Rightarrow> string option" where
  "nth_word ws i = (if i < length ws then Some (ws ! i) else None)"

fun or_undefined :: "string option \<Rightarrow> string" where
  "or_undefined None = ''undefined''"
| "or_undefined (Some s) = s"

text \<open>
  A string as a number, for the strings that are empty (0) or a decimal integer with an
  optional sign; any other string is taken as NaN. \<open>words[i] | 0\<close> makes a signed 32-bit
  integer of it; \<open>parseInt\<close> reads the longest prefix of digits after an optional sign.
  White space around the number, fractions, exponents and the prefix \<open>0x\<close> are left out:
  \<open>entryToString\<close> writes none of them.
\<close>

definition is_digit :: "char \<Rightarrow> bool" where
  "is_digit c = (c \<in> set ''0123456789'')"

definition digit_value :: "char \<Rightarrow> int" where
  "digit_value c = int (length (takeWhile (\<lambda>d. d \<noteq> c) ''0123456789'')) mod 10"

definition digits_value :: "string \<Rightarrow> int" where
  "digits_value ds = foldl (\<lambda>n c. 10 * n + digit_value c) 0 ds"

definition str_to_num :: "string \<Rightarrow> num" where
  "str_to_num s =
     (if s = [] then Num 0
      else case s of
        c # cs \<Rightarrow>
          if (c = CHR ''-'' \<or> c = CHR ''+'') \<and> cs \<noteq> [] \<and> list_all is_digit cs
          then Num ((if c = CHR ''-'' then - 1 else 1) * digits_value cs)
          else if list_all is_digit s then Num (digits_value s)
          else NaN)"

definition word_int32 :: "string option \<Rightarrow> int" where
  "word_int32 w = (case w of None \<Rightarrow> 0 | Some s \<Rightarrow> to_int32 (str_to_num s))"

definition parseInt :: "string option \<Rightarrow> num" where
  "parseInt w =
     (case w of
        None \<Rightarrow> NaN
      | Some s \<Rightarrow>
          (case s of
             [] \<Rightarrow> NaN
           | c # cs \<Rightarrow>
               if c = CHR ''-'' \<or> c = CHR ''+'' then
                 (if takeWhile is_digit cs = [] then NaN
                  else Num ((if c = CHR ''-'' then - 1 else 1) * digits_value (takeWhile is_digit cs)))
               else if takeWhile is_digit s = [] then NaN
               else Num (digits_value (takeWhile is_digit s))))"

text \<open>\<open>list.join(sep)\<close>.\<close>

fun join_with :: "string \<Rightarrow> string list \<Rightarrow> string" where
  "join_with sep [] = []"
| "join_with sep [s] = s"
| "join_with sep (s # t # ts) = s @ sep @ join_with sep (t # ts)"

text \<open>\<open>mode[i] && mode[i] | 0\<close>: the empty string stays, another string becomes a number.\<close>

definition parse_owner :: "string option \<Rightarrow> num_or_str" where
  "parse_owner m =
     (case m of
        None \<Rightarrow> StrV ''undefined''
      | Some s \<Rightarrow> if s = [] then StrV [] else NumV (to_int32 (str_to_num s)))"

text \<open>
  \<open>BackupLog.parse\<close>. \<open>JSON.parse\<close> throws on the path of a D or F line, or on the statistics
  of a STATUS line, that is not JSON; a path that is JSON but not a string is kept as the
  empty string.
\<close>

definition parse :: "env \<Rightarrow> string \<Rightarrow> error + BackupLogEntry" where
  "parse ev line =
     (let words = split_on (\<lambda>c. c = CHR '' '') line in
      if hd words = ''V1'' \<or> hd words = ''V2'' then
        (if nth_word words 1 = Some ''STATUS'' then
           await (json_parse ev (join_with '' '' (drop 3 words))) (\<lambda>_.
             Inr (Status (or_undefined (nth_word words 2))))
         else Inr (Header (substr (hd words) 1 1)))
      else if hd words = ''SOURCE'' then Inr (Source (substr_from line (length (hd words) + 1)))
      else if hd words = ''D'' \<or> hd words = ''F'' then
        await (json_parse ev (join_with '' '' (drop 8 words))) (\<lambda>p.
          let m0 = split_on (\<lambda>c. c = CHR '':'') (or_undefined (nth_word words 1));
              md = (if length m0 = 1 then [[], []] @ m0 else m0)
          in Inr (Entry
               \<lparr> e_type = hd words,
                 e_mode = StrV (or_undefined (nth_word md 2)),
                 e_uid = parse_owner (nth_word md 0),
                 e_gid = parse_owner (nth_word md 1),
                 e_ctime = DStr (or_undefined (nth_word words 2)),
                 e_mtime = DStr (or_undefined (nth_word words 3)),
                 e_size = Num (if hd words = ''D'' then 0 else word_int32 (nth_word words 5)),
                 e_hash = or_undefined (nth_word words 6),
                 e_path = (case p of JString q \<Rightarrow> q | JOther \<Rightarrow> []) \<rparr>))
      else Inr (Unknown line))"

text \<open>
  The lines that \<open>readLines\<close> yields for the bytes of a file: split at the line feeds, a
  carriage return before a line feed removed, no line after a final line feed.
\<close>

definition strip_cr :: "string \<Rightarrow> string" where
  "strip_cr l = (if l \<noteq> [] \<and> last l = CHR 0x0D then butlast l else l)"

definition lines_of :: "bytes \<Rightarrow> string list" where
  "lines_of text =
     (let ls = split_on (\<lambda>c. c = CHR 0x0A) text
      in map strip_cr (if last ls = [] then butlast ls else ls))"

text \<open>
  The object \<open>hashes\<close>: for every key \<open>hash.size\<close>, in the order of their first insertion,
  the count and the flag \<open>seen\<close> (target, \<open>Hashes\<close>).
\<close>

record HashMapEntry =
  h_count :: int
  h_seen :: bool

type_synonym HashMap = "(string \<times> HashMapEntry) list"

text \<open>\<open>hash = hashes[key] || { count: 0 }; hash.count++; hashes[key] = hash\<close>.\<close>

definition count_hash :: "string \<Rightarrow> HashMap \<Rightarrow> HashMap" where
  "count_hash key hashes =
     (case map_of hashes key of
        None \<Rightarrow> hashes @ [(key, \<lparr> h_count = 1, h_seen = False \<rparr>)]
      | Some h \<Rightarrow> AList.update key (h\<lparr> h_count := h_count h + 1 \<rparr>) hashes)"

text \<open>
  \<open>getHashesFromInstanceLog\<close>: every line of the log is parsed and the F entries are
  counted. The promise has no handler for errors of the reader, so a file that cannot be
  opened, or a line on which \<open>parse\<close> throws, is an unhandled rejection.
\<close>

fun hashes_of_lines :: "env \<Rightarrow> string list \<Rightarrow> HashMap \<Rightarrow> error + HashMap" where
  "hashes_of_lines ev [] hashes = Inr hashes"
| "hashes_of_lines ev (line # rest) hashes =
     (case parse ev line of
        Inl e \<Rightarrow> Inl (Uncaught e)
      | Inr (Entry e) \<Rightarrow>
          hashes_of_lines ev rest
            (if e_type e = ''F''
             then count_hash (e_hash e @ ''.'' @ num_to_string (e_size e)) hashes
             else hashes)
      | Inr _ \<Rightarrow> hashes_of_lines ev rest hashes)"

definition getHashesFromInstanceLog ::
  "env \<Rightarrow> world \<Rightarrow> BackupLog \<Rightarrow> string \<Rightarrow> HashMap \<Rightarrow> error + HashMap" where
  "getHashesFromInstanceLog ev w lg when hashes =
     await (parseWhen (WhenString when)) (\<lambda>ext.
       case read_file w (getLogName lg ext) of
         Inl e \<Rightarrow> Inl (Uncaught e)
       | Inr text \<Rightarrow> hashes_of_lines ev (lines_of text) hashes)"

text \<open>
  \<open>getLinesFromLog\<close>: the parsed lines of a log that are not empty; here an error of the
  reader rejects the promise.
\<close>

fun parse_lines :: "env \<Rightarrow> string list \<Rightarrow> error + BackupLogEntry list" where
  "parse_lines ev [] = Inr []"
| "parse_lines ev (line # rest) =
     (if line = [] then parse_lines ev rest
      else await (parse ev line) (\<lambda>parsed.
           await (parse_lines ev rest) (\<lambda>ps. Inr (parsed # ps))))"

definition getLinesFromLog ::
  "env \<Rightarrow> world \<Rightarrow> BackupLog \<Rightarrow> when_arg \<Rightarrow> error + BackupLogEntry list" where
  "getLinesFromLog ev w lg when =
     await (parseWhen when) (\<lambda>ext.
     await (read_file w (getLogName lg ext)) (\<lambda>text.
       parse_lines ev (lines_of text)))"

section \<open>backup-target (LocalBackup) and backup-instance.ts\<close>

text \<open>The target (\<open>LocalBackup\<close>): its path and its \<open>BackupFileSystem\<close>.\<close>

record LocalBackup =
  destination :: string
  filesystem :: BackupFileSystem

text \<open>A \<open>BackupInstance\<close>; an undefined set name or user id is the empty string.\<close>

record BackupInstance =
  i_target :: LocalBackup
  i_setname :: string
  i_userid :: string
  i_log :: "BackupLog option"

text \<open>
  \<open>log()\<close>: the \<open>BackupLog\<close> of the instance, made on first use (with no file open);
  \<open>_userid()\<close> and \<open>_setname()\<close> throw when the field is not set.
\<close>

definition instance_log :: "BackupInstance \<Rightarrow> error + BackupLog \<times> BackupInstance" where
  "instance_log inst =
     (case i_log inst of
        Some lg \<Rightarrow> Inr (lg, inst)
      | None \<Rightarrow>
          if i_userid inst = [] then Inl (Error ''userid not defined'')
          else if i_setname inst = [] then Inl (Error ''setname not defined'')
          else
            let lg = \<lparr> log_root = destination (i_target inst), log_userid = i_userid inst,
                       log_setname = i_setname inst, log_file = None \<rparr>
            in Inr (lg, inst\<lparr> i_log := Some lg \<rparr>))"

text \<open>\<open>BackupInstance.put\<close>.\<close>

definition instance_put ::
  "env \<Rightarrow> world \<Rightarrow> BackupInstance \<Rightarrow> string \<Rightarrow> num \<Rightarrow> string \<Rightarrow> error + put_result \<times> world" where
  "instance_put ev w inst file sz h = bfs_put ev w (filesystem (i_target inst)) file sz h None"

text \<open>What is printed: a line of text, or an error object.\<close>

datatype console_item = Line string | Dir error

record verify_options =
  v_verbose :: bool
  v_compare :: bool
  v_compareWith :: "string option"

text \<open>A line of the report of \<open>verify\<close>: the word, then hash, size and path of the entry.\<close>

definition report_line :: "string \<Rightarrow> FileEntry \<Rightarrow> console_item" where
  "report_line word e =
     Line (word @ '' '' @ e_hash e @ '' '' @ num_to_string (e_size e) @ '' '' @ e_path e)"

text \<open>
  The loop of \<open>BackupInstance.verify\<close> over the parsed lines of the log, with the variable
  \<open>root\<close> and the lines printed so far. An error thrown outside the \<open>try\<close> block ends the
  loop; one caught by it is reported by its \<open>code\<close>.
\<close>

fun verify_lines ::
  "env \<Rightarrow> world \<Rightarrow> BackupFileSystem \<Rightarrow> verify_options \<Rightarrow> string option \<Rightarrow> BackupLogEntry list
     \<Rightarrow> console_item list \<Rightarrow> console_item list \<times> error option" where
  "verify_lines ev w bfs opts root [] out = (out, None)"
| "verify_lines ev w bfs opts root (Source r # rest) out =
     verify_lines ev w bfs opts (Some r) rest
       (if v_verbose opts then out @ [Line (''SOURCE '' @ r)] else out)"
| "verify_lines ev w bfs opts root (Entry e # rest) out =
     (if e_type e \<noteq> ''F'' then verify_lines ev w bfs opts root rest out
      else case root of
        None \<Rightarrow> (out, Some (Error ''corrupt backup log, missing SOURCE entry''))
      | Some r \<Rightarrow>
          if r = [] then (out, Some (Error ''corrupt backup log, missing SOURCE entry''))
          else
            (case bfs_verify ev w bfs (e_size e) (e_hash e)
                    (if v_compare opts
                     then Some (path_join
                            [case v_compareWith opts of
                               None \<Rightarrow> r
                             | Some c \<Rightarrow> if c = [] then r else c,
                             e_path e])
                     else None) of
               Inr _ \<Rightarrow>
                 verify_lines ev w bfs opts root rest
                   (if v_verbose opts then out @ [report_line ''OK'' e] else out)
             | Inl (Uncaught x) \<Rightarrow> (out, Some (Uncaught x))
             | Inl x \<Rightarrow>
                 verify_lines ev w bfs opts root rest
                   (if err_code x = Some ''ENOCOMPARE'' then out @ [report_line ''CHANGED'' e]
                    else if err_code x = Some ''ENOENT'' then out @ [report_line ''DELETED'' e]
                    else out @ [report_line ''ERROR'' e, Dir x])))"
| "verify_lines ev w bfs opts root (_ # rest) out = verify_lines ev w bfs opts root rest out"

text \<open>\<open>BackupInstance.verify\<close>: what it prints and the error it throws, if any.\<close>

definition BackupInstance_verify ::
  "env \<Rightarrow> world \<Rightarrow> BackupInstance \<Rightarrow> verify_options \<Rightarrow> string
     \<Rightarrow> console_item list \<times> error option" where
  "BackupInstance_verify ev w inst opts when =
     (case instance_log inst of
        Inl e \<Rightarrow> ([], Some e)
      | Inr (lg, inst') \<Rightarrow>
          (case getLinesFromLog ev w lg (WhenString when) of
             Inl e \<Rightarrow> ([], Some e)
           | Inr lines \<Rightarrow>
               verify_lines ev w (filesystem (i_target inst)) opts None lines []))"

section \<open>backup-source.ts\<close>

text \<open>\<open>InfoFileEntry\<close> and \<open>BackupInfo\<close> (backup-log.ts): what \<open>getLastBackup\<close> returns.\<close>

record InfoFileEntry =
  f_source :: string
  f_ctime :: date_or_str
  f_mtime :: date_or_str
  f_size :: num
  f_hash :: string

record BackupInfo =
  b_time :: date
  b_F :: "string \<rightharpoonup> InfoFileEntry"
  b_D :: "string \<rightharpoonup> InfoFileEntry"

text \<open>\<open>BackupStats\<close> (backup-set.ts); \<open>bytes_total\<close> is the field \<open>bytes\<close>.\<close>

record BackupStats =
  skipped :: int
  folders :: int
  files :: int
  bytes_total :: int
  backedUp_files :: int
  backedUp_bytes :: int

text \<open>The fields of a \<open>BackupSource\<close> that \<open>_backupFile\<close> and \<open>_log\<close> read.\<close>

record BackupSource =
  src :: string
  verbose :: bool
  checkHash :: bool
  lastBackup :: "BackupInfo option"

text \<open>\<open>getTime()\<close>; \<open>None\<close> is NaN.\<close>

fun getTime :: "date \<Rightarrow> int option" where
  "getTime (Date t) = Some t"
| "getTime InvalidDate = None"

text \<open>
  \<open>sameAsLastBackup\<close>. The modification time of the entry is an object when it is not a
  string, so the \<open>else\<close> branch is taken only for a stat without modification time, and
  then \<open>null != b.mtime\<close> holds.
\<close>

definition sameAsLastBackup :: "FileInfo \<Rightarrow> InfoFileEntry \<Rightarrow> error + bool" where
  "sameAsLastBackup a b =
     (case f_mtime b of
        DStr _ \<Rightarrow> Inl (Error ''sameAsLastBackup expects mtime to be a date'')
      | DateV bm \<Rightarrow>
          if Num (fsize a) \<noteq> f_size b then Inr False
          else (case mtime a of
                  Some am \<Rightarrow> if getTime bm \<noteq> Some am then Inr False else Inr True
                | None \<Rightarrow> Inr False))"

text \<open>
  The state that \<open>_backupFile\<close> works on: the file system, the instance, the statistics,
  what was printed, and the paths that were passed to \<open>fs.hash\<close> so far.
\<close>

record run =
  r_world :: world
  r_instance :: BackupInstance
  r_stats :: BackupStats
  r_console :: "console_item list"
  r_hashed :: "string list"

text \<open>The entry that \<open>_log\<close> builds from a stat.\<close>

definition log_entry :: "env \<Rightarrow> string \<Rightarrow> string \<Rightarrow> FileInfo \<Rightarrow> string \<Rightarrow> FileEntry" where
  "log_entry ev type fn st h =
     \<lparr> e_type = type,
       e_mode = (case mode st of None \<Rightarrow> StrV [] | Some m \<Rightarrow> if m = 0 then StrV [] else NumV m),
       e_uid = (case (if windows ev then None else uid st) of
                  None \<Rightarrow> StrV [] | Some u \<Rightarrow> if u = 0 then StrV [] else NumV u),
       e_gid = (case (if windows ev then None else gid st) of
                  None \<Rightarrow> StrV [] | Some g \<Rightarrow> if g = 0 then StrV [] else NumV g),
       e_ctime = (case birthtime st of None \<Rightarrow> DStr [] | Some t \<Rightarrow> DateV (Date t)),
       e_mtime = (case mtime st of None \<Rightarrow> DStr [] | Some t \<Rightarrow> DateV (Date t)),
       e_size = Num (fsize st), e_hash = h, e_path = fn \<rparr>"

text \<open>\<open>BackupSource._log\<close>: the modified code is printed when \<open>verbose\<close> is set; the entry is written.\<close>

definition source_log ::
  "env \<Rightarrow> BackupSource \<Rightarrow> string \<Rightarrow> string \<Rightarrow> FileInfo \<Rightarrow> string \<Rightarrow> string \<Rightarrow> run
     \<Rightarrow> run \<times> error option" where
  "source_log ev s type fn st h modified r =
     (let r1 = (if verbose s
                then r\<lparr> r_console := r_console r @ [Line (modified @ '' '' @ path_join [src s, fn])] \<rparr>
                else r)
      in case instance_log (r_instance r1) of
           Inl e \<Rightarrow> (r1, Some e)
         | Inr (lg, inst) \<Rightarrow>
             (case writeEntry (r_world r1) lg (log_entry ev type fn st h) of
                Inl e \<Rightarrow> (r1\<lparr> r_instance := inst \<rparr>, Some e)
              | Inr w' \<Rightarrow> (r1\<lparr> r_instance := inst, r_world := w' \<rparr>, None)))"

text \<open>\<open>a <= b\<close> on two dates: false when one is invalid.\<close>

definition date_le :: "date \<Rightarrow> date \<Rightarrow> bool" where
  "date_le a b = (case (getTime a, getTime b) of (Some x, Some y) \<Rightarrow> x \<le> y | _ \<Rightarrow> False)"

text \<open>
  \<open>_backupFile\<close>, from \<open>let hash\<close> to the end of \<open>if (this.lastBackup)\<close>: the hash taken
  from the last backup (if any) and the modified code.
\<close>

definition backupFile_decide ::
  "BackupSource \<Rightarrow> string \<Rightarrow> FileInfo \<Rightarrow> error + string option \<times> string" where
  "backupFile_decide s fn fstat =
     (case lastBackup s of
        None \<Rightarrow> Inr (None, ''a'')
      | Some lb \<Rightarrow>
          (case (b_F lb fn, mtime fstat) of
             (Some prev, Some t) \<Rightarrow>
               if date_le (Date t) (b_time lb) then
                 await (sameAsLastBackup fstat prev) (\<lambda>same.
                   if same then
                     (if checkHash s then Inr (None, ''c'') else Inr (Some (f_hash prev), ''-''))
                   else Inr (None, ''u''))
               else Inr (None, ''u'')
           | _ \<Rightarrow> Inr (None, ''a'')))"

text \<open>\<open>stats.files++; stats.bytes += size\<close>, and the same for \<open>stats.backedUp\<close>.\<close>

definition add_files :: "int \<Rightarrow> BackupStats \<Rightarrow> BackupStats" where
  "add_files sz t = t\<lparr> files := files t + 1, bytes_total := bytes_total t + sz \<rparr>"

definition add_backedUp :: "int \<Rightarrow> BackupStats \<Rightarrow> BackupStats" where
  "add_backedUp sz t =
     t\<lparr> backedUp_files := backedUp_files t + 1, backedUp_bytes := backedUp_bytes t + sz \<rparr>"

text \<open>
  The \<open>try\<close> block of \<open>_backupFile\<close>: the state it leaves and the error it throws, if
  any. The file is hashed when no hash was taken over (\<open>!hash\<close> also holds for the empty
  string).
\<close>

definition backupFile_try :: "env \<Rightarrow> BackupSource \<Rightarrow> string \<Rightarrow> run \<Rightarrow> run \<times> error option" where
  "backupFile_try ev s fn r =
     (case lstat (r_world r) fn of
        Inl e \<Rightarrow> (r, Some e)
      | Inr fstat \<Rightarrow>
          (case backupFile_decide s fn fstat of
             Inl e \<Rightarrow> (r, Some e)
           | Inr (reused, modified) \<Rightarrow>
               (case (case reused of
                        Some h \<Rightarrow> if h \<noteq> [] then (r, Inr h)
                                  else (r\<lparr> r_hashed := r_hashed r @ [fn] \<rparr>,
                                        fs_hashFile ev (r_world r) fn)
                      | None \<Rightarrow> (r\<lparr> r_hashed := r_hashed r @ [fn] \<rparr>,
                                 fs_hashFile ev (r_world r) fn)) of
                  (r1, Inl e) \<Rightarrow> (r1, Some e)
                | (r1, Inr h) \<Rightarrow>
                    let r2 = r1\<lparr> r_stats := add_files (fsize fstat) (r_stats r1) \<rparr>
                    in (case instance_put ev (r_world r2) (r_instance r2) fn (Num (fsize fstat)) h of
                          Inl e \<Rightarrow> (r2, Some e)
                        | Inr (res, w') \<Rightarrow>
                            (case source_log ev s ''F'' (substr_from fn (length (src s) + 1)) fstat h
                                    modified (r2\<lparr> r_world := w' \<rparr>) of
                               (r3, Some e) \<Rightarrow> (r3, Some e)
                             | (r3, None) \<Rightarrow>
                                 if stored res
                                 then (r3\<lparr> r_stats := add_backedUp (fsize fstat) (r_stats r3) \<rparr>, None)
                                 else (r3, None))))))"

text \<open>
  \<open>_backupFile\<close>: the \<open>catch\<close> block counts the file as skipped, prints, and throws the
  error again.
\<close>

definition backupFile :: "env \<Rightarrow> BackupSource \<Rightarrow> string \<Rightarrow> run \<Rightarrow> run \<times> error option" where
  "backupFile ev s fn r =
     (case backupFile_try ev s fn r of
        (r', None) \<Rightarrow> (r', None)
      | (r', Some (Uncaught x)) \<Rightarrow> (r', Some (Uncaught x))
      | (r', Some e) \<Rightarrow>
          (r'\<lparr> r_stats := (r_stats r')\<lparr> skipped := skipped (r_stats r') + 1 \<rparr>,
               r_console := r_console r' @ [Line (fn @ '' failed''), Dir e] \<rparr>,
           Some e))"

section \<open>backup-target: fsck\<close>

text \<open>\<open>Deno.DirEntry\<close> and fs.ts, \<open>readdir\<close>: the entries of a directory.\<close>

record DirEntry =
  d_name :: string
  d_isFile :: bool
  d_isDirectory :: bool

definition readdir :: "world \<Rightarrow> string \<Rightarrow> error + DirEntry list" where
  "readdir w p =
     (case lookup_error w p of
        Some e \<Rightarrow> Inl e
      | None \<Rightarrow>
          (case node_at w p of
             None \<Rightarrow> Inl NotFound
           | Some (RegFile _) \<Rightarrow> Inl (OsError ''ENOTDIR'')
           | Some Directory \<Rightarrow>
               Inr (map (\<lambda>(q, n). \<lparr> d_name = path_basename q,
                                      d_isFile = (case n of RegFile _ \<Rightarrow> True | Directory \<Rightarrow> False),
                                      d_isDirectory = (case n of RegFile _ \<Rightarrow> False | Directory \<Rightarrow> True) \<rparr>)
                      (filter (\<lambda>(q, n). path_dirname q = p \<and> q \<noteq> p) (nodes w)))))"

text \<open>
  \<open>path.extname\<close> (from the last dot of the name; empty when that dot is the first
  character or there is none) and \<open>path.basename(name, ext)\<close>.
\<close>

definition path_extname :: "string \<Rightarrow> string" where
  "path_extname name =
     (let e = rev (takeWhile (\<lambda>c. c \<noteq> CHR ''.'') (rev name))
      in if CHR ''.'' \<notin> set name \<or> length name = length e + 1 then [] else CHR ''.'' # e)"

definition path_basename_ext :: "string \<Rightarrow> string \<Rightarrow> string" where
  "path_basename_ext name ext =
     (if ext \<noteq> [] \<and> length ext < length name \<and> drop (length name - length ext) name = ext
      then take (length name - length ext) name else name)"

text \<open>\<open>Logs\<close>: a log file and the user id of its directory (empty for \<open>undefined\<close>).\<close>

record Logs =
  l_userid :: string
  l_log :: DirEntry

text \<open>The tests of \<open>getLogs\<close> on the set name and on \<open>when\<close> (empty for \<open>undefined\<close>).\<close>

definition log_selected :: "string \<Rightarrow> string \<Rightarrow> DirEntry \<Rightarrow> bool" where
  "log_selected setname when lg =
     ((setname = [] \<or> setname = path_basename_ext (d_name lg) (path_extname (d_name lg)))
      \<and> (when = [] \<or> when = substr_from (path_extname (d_name lg)) 1))"

text \<open>
  \<open>getLogs\<close>: the loop over the entries of the directory of a user, and the loop over the
  entries of \<open>backups\<close>, which calls \<open>getLogs\<close> again for every directory.
\<close>

fun getLogs_user :: "string \<Rightarrow> string \<Rightarrow> string \<Rightarrow> DirEntry list \<Rightarrow> Logs list \<Rightarrow> Logs list" where
  "getLogs_user setname when userid [] logs = logs"
| "getLogs_user setname when userid (lg # rest) logs =
     getLogs_user setname when userid rest
       (if d_isFile lg \<and> take 1 (d_name lg) \<noteq> ''.'' \<and> log_selected setname when lg
        then logs @ [\<lparr> l_userid = userid, l_log = lg \<rparr>] else logs)"

fun getLogs_top ::
  "world \<Rightarrow> string \<Rightarrow> string \<Rightarrow> string \<Rightarrow> DirEntry list \<Rightarrow> Logs list \<Rightarrow> error + Logs list" where
  "getLogs_top w backups setname when [] logs = Inr logs"
| "getLogs_top w backups setname when (lg # rest) logs =
     (if d_isFile lg \<and> take 1 (d_name lg) \<noteq> ''.'' then
        getLogs_top w backups setname when rest
          (if log_selected setname when lg then logs @ [\<lparr> l_userid = [], l_log = lg \<rparr>] else logs)
      else if d_isDirectory lg then
        await (readdir w (path_join [backups, d_name lg])) (\<lambda>dir.
          getLogs_top w backups setname when rest
            (getLogs_user setname when (d_name lg) dir logs))
      else getLogs_top w backups setname when rest logs)"

text \<open>The fields \<open>filesDb\<close> and \<open>backups\<close> of the target.\<close>

definition filesDb :: "LocalBackup \<Rightarrow> string" where
  "filesDb t = path_join [destination t, ''files.db'']"

definition backups :: "LocalBackup \<Rightarrow> string" where
  "backups t = path_join [destination t, ''backups'']"

definition getLogs :: "world \<Rightarrow> LocalBackup \<Rightarrow> string \<Rightarrow> string \<Rightarrow> string \<Rightarrow> error + Logs list" where
  "getLogs w t setname when userid =
     await (readdir w (path_join [backups t, userid])) (\<lambda>dir.
       if userid = [] then getLogs_top w (backups t) setname when dir []
       else Inr (getLogs_user setname when userid dir []))"

text \<open>
  \<open>getAllActiveHashes\<close>: a log \<open>.current\<close> is passed over, a log \<open>.running\<close> throws, and
  for any other log a \<open>BackupInstance\<close> is made whose \<open>log()\<close> reads the hashes.
\<close>

fun activeHashes_loop ::
  "env \<Rightarrow> world \<Rightarrow> LocalBackup \<Rightarrow> Logs list \<Rightarrow> HashMap \<Rightarrow> error + HashMap" where
  "activeHashes_loop ev w t [] hashes = Inr hashes"
| "activeHashes_loop ev w t (logEntry # rest) hashes =
     (let ext = path_extname (d_name (l_log logEntry)) in
      if ext = ''.current'' then activeHashes_loop ev w t rest hashes
      else if ext = ''.running'' then Inl (Error ''can't when a backup is running'')
      else
        await (instance_log \<lparr> i_target = t,
                 i_setname = path_basename_ext (d_name (l_log logEntry)) ext,
                 i_userid = l_userid logEntry, i_log = None \<rparr>) (\<lambda>(lg, inst).
        await (getHashesFromInstanceLog ev w lg (substr_from ext 1) hashes) (\<lambda>hashes'.
          activeHashes_loop ev w t rest hashes')))"

definition getAllActiveHashes :: "env \<Rightarrow> world \<Rightarrow> LocalBackup \<Rightarrow> error + HashMap" where
  "getAllActiveHashes ev w t =
     await (getLogs w t [] [] []) (\<lambda>logs. activeHashes_loop ev w t logs [])"

text \<open>\<open>keyFromFile\<close> of the hash file system and of \<open>BackupFileSystem\<close>.\<close>

definition hfs_keyFromFile :: "string \<Rightarrow> string \<Rightarrow> string" where
  "hfs_keyFromFile dir name = name"

definition bfs_keyFromFile :: "BackupFileSystem \<Rightarrow> string \<Rightarrow> string \<Rightarrow> error + string" where
  "bfs_keyFromFile bfs dir name =
     await (bfs_assert (bfs_hfs bfs \<noteq> None) SETLOCATION_NOT_CALLED) (\<lambda>_.
       Inr (hfs_keyFromFile dir name))"

text \<open>
  \<open>_scanFs\<close>: the loop over the entries of \<open>root\<close>, with the state \<open>acc\<close> that the callback
  works on. \<open>fuel\<close> bounds the depth of the directories below \<open>root\<close>.
\<close>

fun scan_entries ::
  "nat \<Rightarrow> world \<Rightarrow> LocalBackup \<Rightarrow> string \<Rightarrow> (string \<Rightarrow> DirEntry \<Rightarrow> string \<Rightarrow> 'a \<Rightarrow> error + 'a)
     \<Rightarrow> DirEntry list \<Rightarrow> 'a \<Rightarrow> error + 'a" where
  "scan_entries fuel w t root callback [] acc = Inr acc"
| "scan_entries fuel w t root callback (entry # rest) acc =
     (if d_isDirectory entry then
        (case fuel of
           0 \<Rightarrow> Inl OutOfFuel
         | Suc n \<Rightarrow>
             await (readdir w (path_join [root, d_name entry])) (\<lambda>dir.
             await (scan_entries n w t (path_join [root, d_name entry]) callback dir acc) (\<lambda>acc'.
               scan_entries fuel w t root callback rest acc')))
      else if d_isFile entry then
        await (bfs_keyFromFile (filesystem t)
                 (substr_from root (length (filesDb t) + 1)) (d_name entry)) (\<lambda>key.
        await (callback root entry key acc) (\<lambda>acc'.
          scan_entries fuel w t root callback rest acc'))
      else scan_entries fuel w t root callback rest acc)"

definition scanFs ::
  "nat \<Rightarrow> world \<Rightarrow> LocalBackup \<Rightarrow> string \<Rightarrow> (string \<Rightarrow> DirEntry \<Rightarrow> string \<Rightarrow> 'a \<Rightarrow> error + 'a)
     \<Rightarrow> 'a \<Rightarrow> error + 'a" where
  "scanFs fuel w t root callback acc =
     await (readdir w root) (\<lambda>dir. scan_entries fuel w t root callback dir acc)"

text \<open>The counters of \<open>fsck\<close>.\<close>

record fsck_stats =
  total :: int
  verified :: int
  damaged :: int
  orphaned :: int
  missing :: int

text \<open>
  The callback of \<open>fsck\<close>, on the counters and \<open>hashes\<close>. \<open>seen\<close> is set after \<open>verify\<close>
  has returned, inside the \<open>try\<close> block.
\<close>

definition fsck_callback ::
  "env \<Rightarrow> world \<Rightarrow> LocalBackup \<Rightarrow> string \<Rightarrow> DirEntry \<Rightarrow> string \<Rightarrow> fsck_stats \<times> HashMap
     \<Rightarrow> error + fsck_stats \<times> HashMap" where
  "fsck_callback ev w t root entry key acc =
     (case acc of (stats, hashes) \<Rightarrow>
        let stats1 = stats\<lparr> total := total stats + 1 \<rparr> in
        if key = [] then Inr (stats1, hashes)
        else case map_of hashes key of
          None \<Rightarrow> Inr (stats1\<lparr> orphaned := orphaned stats1 + 1 \<rparr>, hashes)
        | Some h \<Rightarrow>
            let parts = split_on (\<lambda>c. c = CHR ''.'') key in
            (case bfs_verify ev w (filesystem t) (parseInt (nth_word parts 1)) (hd parts) None of
               Inr _ \<Rightarrow>
                 Inr (stats1\<lparr> verified := verified stats1 + 1 \<rparr>,
                      AList.update key (h\<lparr> h_seen := True \<rparr>) hashes)
             | Inl (Uncaught x) \<Rightarrow> Inl (Uncaught x)
             | Inl _ \<Rightarrow> Inr (stats1\<lparr> damaged := damaged stats1 + 1 \<rparr>, hashes)))"

text \<open>\<open>fsck\<close>: the counters it prints in its last line.\<close>

definition fsck :: "nat \<Rightarrow> env \<Rightarrow> world \<Rightarrow> LocalBackup \<Rightarrow> error + fsck_stats" where
  "fsck fuel ev w t =
     await (getAllActiveHashes ev w t) (\<lambda>hashes.
     await (scanFs fuel w t (filesDb t) (fsck_callback ev w t)
              (\<lparr> total = 0, verified = 0, damaged = 0, orphaned = 0, missing = 0 \<rparr>, hashes))
       (\<lambda>(stats, hashes').
          Inr (stats\<lparr> missing :=
                 missing stats + int (length (filter (\<lambda>(k, h). \<not> h_seen h) hashes')) \<rparr>)))"

section \<open>The scenario of one backed-up file\<close>

text \<open>
  Concrete inputs for running the model: the target \<open>/backup\<close> after the file
  \<open>/src/a.txt\<close> with the six bytes \<open>hello\<close>, newline, was backed up by the user \<open>u1\<close> in
  the set \<open>set1\<close>; the file system is given with the bytes of the source file and of the
  stored object as parameters. Then the second run: its log \<open>running\<close>, its instance, and
  the last backup with one entry for the file, whose hash is a parameter. The stand-ins for
  the library primitives give that content its SHA-256 digest (and every other content the
  digest of no bytes), put the two magic bytes of gzip before the content, and read a
  text between double quotes as a JSON string without escapes and any other text that is
  not empty as some other JSON value.
\<close>

definition hello_digest :: string where
  "hello_digest = ''5891b5b522d5df086d0ff0b110fbd9d21bb4fc7163af34d08286a2e846f6be03''"

definition empty_digest :: string where
  "empty_digest = ''e3b0c44298fc1c149afbf4c8996fb92427ae41e4649b934ca495991b7852b855''"

definition demo_env :: env where
  "demo_env =
     \<lparr> sha256 = (\<lambda>c. if c = ''hello'' @ [CHR 0x0A] then hello_digest else empty_digest),
       gzip = (\<lambda>c. CHR 0x1F # CHR 0x8B # c),
       gunzip = (\<lambda>z. case z of
                   a # b # c \<Rightarrow>
                     if a = CHR 0x1F \<and> b = CHR 0x8B then Inr c
                     else Inl (Thrown ''invalid gzip data'')
                 | _ \<Rightarrow> Inl (Thrown ''invalid gzip stream'')),
       windows = False,
       json_parse = (\<lambda>t. case t of
                       [] \<Rightarrow> Inl SyntaxError
                     | c # cs \<Rightarrow>
                         if c = CHR 0x22 \<and> cs \<noteq> [] \<and> last cs = CHR 0x22
                         then Inr (JString (butlast cs)) else Inr JOther) \<rparr>"

definition demo_meta :: "string \<Rightarrow> file_meta" where
  "demo_meta p =
     \<lparr> m_mtime = Some 1705312800000, m_birthtime = None, m_mode = Some 33188,
       m_uid = Some 1000, m_gid = Some 1000 \<rparr>"

definition demo_object :: string where
  "demo_object = ''/backup/files.db/58/91/'' @ hello_digest @ ''.6''"

definition hello :: bytes where "hello = ''hello'' @ [CHR 0x0A]"

definition demo_header :: string where
  "demo_header = ''V2 type uid:gid:mode ctime mtime - size hash 0 path''"

definition demo_F_line :: string where
  "demo_F_line =
     ''F 1000:1000:100644  2024-01-15T10:00:00.000Z - 6 '' @ hello_digest @ '' 0 ''
     @ [CHR 0x22] @ ''a.txt'' @ [CHR 0x22]"

definition demo_log_text :: string where
  "demo_log_text =
     demo_header @ [CHR 0x0A] @ ''SOURCE /src'' @ [CHR 0x0A] @ demo_F_line @ [CHR 0x0A]
     @ ''V2 STATUS OK {}'' @ [CHR 0x0A]"

definition demo_nodes :: "bytes \<Rightarrow> bytes \<Rightarrow> (string \<times> fnode) list" where
  "demo_nodes a obj =
     [(''/src'', Directory), (''/src/a.txt'', RegFile a),
      (''/backup'', Directory), (''/backup/files.db'', Directory),
      (''/backup/files.db/58'', Directory), (''/backup/files.db/58/91'', Directory),
      (demo_object, RegFile obj),
      (''/backup/backups'', Directory), (''/backup/backups/u1'', Directory),
      (''/backup/backups/u1/set1.20240115T120000000Z'', RegFile demo_log_text),
      (''/backup/backups/u1/set1.current'', RegFile demo_log_text)]"

text \<open>No lookup is refused.\<close>

definition demo_faults :: "string \<Rightarrow> string option" where
  "demo_faults p = None"

definition demo_world :: world where
  "demo_world =
     \<lparr> nodes = demo_nodes hello (CHR 0x1F # CHR 0x8B # hello), meta = demo_meta,
       cwd = Inr ''/'', faults = demo_faults \<rparr>"

text \<open>The same with the bytes of the source file changed, and with the object truncated.\<close>

definition demo_world_changed :: world where
  "demo_world_changed =
     \<lparr> nodes = demo_nodes (''HELLO'' @ [CHR 0x0A]) (CHR 0x1F # CHR 0x8B # hello),
       meta = demo_meta, cwd = Inr ''/'', faults = demo_faults \<rparr>"

definition demo_world_truncated :: world where
  "demo_world_truncated =
     \<lparr> nodes = demo_nodes hello [], meta = demo_meta, cwd = Inr ''/'', faults = demo_faults \<rparr>"








definition demo_bfs :: BackupFileSystem where
  "demo_bfs = \<lparr> bfs_root = Some ''/backup/files.db'',
                bfs_hfs = Some \<lparr> hfs_root = ''/backup/files.db'' \<rparr> \<rparr>"

definition demo_target :: LocalBackup where
  "demo_target = \<lparr> destination = ''/backup'', filesystem = demo_bfs \<rparr>"

definition demo_running :: string where
  "demo_running = ''/backup/backups/u1/set1.running''"

definition demo_running_text :: string where
  "demo_running_text = demo_header @ [CHR 0x0A] @ ''SOURCE /src'' @ [CHR 0x0A]"

definition demo_world2 :: world where
  "demo_world2 =
     \<lparr> nodes = demo_nodes hello (CHR 0x1F # CHR 0x8B # hello)
                 @ [(demo_running, RegFile demo_running_text)],
       meta = demo_meta, cwd = Inr ''/'', faults = demo_faults \<rparr>"

definition demo_instance :: BackupInstance where
  "demo_instance =
     \<lparr> i_target = demo_target, i_setname = ''set1'', i_userid = ''u1'',
       i_log = Some \<lparr> log_root = ''/backup'', log_userid = ''u1'', log_setname = ''set1'',
                      log_file = Some demo_running \<rparr> \<rparr>"

definition demo_last :: "string \<Rightarrow> BackupInfo" where
  "demo_last h =
     \<lparr> b_time = Date 1705320000000,
       b_F = [''/src/a.txt'' \<mapsto>
                \<lparr> f_source = ''/src'', f_ctime = DateV InvalidDate,
                  f_mtime = DateV (Date 1705312800000), f_size = Num 6, f_hash = h \<rparr>],
       b_D = Map.empty \<rparr>"

definition demo_source :: "string \<Rightarrow> BackupSource" where
  "demo_source h = \<lparr> src = ''/src'', verbose = True, checkHash = False,
                      lastBackup = Some (demo_last h) \<rparr>"

definition demo_run :: run where
  "demo_run =
     \<lparr> r_world = demo_world2, r_instance = demo_instance,
       r_stats = \<lparr> skipped = 0, folders = 1, files = 0, bytes_total = 0,
                   backedUp_files = 0, backedUp_bytes = 0 \<rparr>,
       r_console = [], r_hashed = [] \<rparr>"


section \<open>Theorems\<close>

subsection \<open>The log's existence check\<close>




lemma path_resolve_nodes [simp]: "path_resolve (w\<lparr> nodes := ns \<rparr>) fn = path_resolve w fn"
  by (simp add: path_resolve_def Let_def)

lemma lookup_error_nodes [simp]: "lookup_error (w\<lparr> nodes := ns \<rparr>) p = lookup_error w p"
  by (simp add: lookup_error_def)





subsection \<open>Timestamps\<close>

lemma hd_drop_snoc: "hd (drop n s @ [y]) \<in> set s \<union> {y}"
proof (cases "drop n s")
  case Nil
  then show ?thesis by simp
next
  case (Cons a list)
  then have "a \<in> set (drop n s)" by simp
  then have "a \<in> set s" by (rule in_set_dropD)
  with Cons show ?thesis by simp
qed

lemma digit_not_sep: "\<not> is_sep (digit_char d)"
proof -
  have "digit_char d \<in> set ''0123456789'' \<union> {CHR ''9''}"
    unfolding digit_char_def by (rule hd_drop_snoc)
  then show ?thesis by (auto simp: is_sep_def)
qed

lemma pad_digits_2: "pad_digits 2 n = [digit_char (n div 10 mod 10), digit_char (n mod 10)]"
  by (simp add: eval_nat_numeral)

lemma pad_digits_3:
  "pad_digits 3 n =
     [digit_char (n div 10 div 10 mod 10), digit_char (n div 10 mod 10), digit_char (n mod 10)]"
  by (simp add: eval_nat_numeral)

lemma pad_digits_4:
  "pad_digits 4 n =
     [digit_char (n div 10 div 10 div 10 mod 10), digit_char (n div 10 div 10 mod 10),
      digit_char (n div 10 mod 10), digit_char (n mod 10)]"
  by (simp add: eval_nat_numeral)

lemma strip_iso_shape:
  assumes "\<not> is_sep a" "\<not> is_sep b" "\<not> is_sep c" "\<not> is_sep d" "\<not> is_sep e" "\<not> is_sep f"
    "\<not> is_sep g" "\<not> is_sep h" "\<not> is_sep i" "\<not> is_sep j" "\<not> is_sep k" "\<not> is_sep l"
    "\<not> is_sep m" "\<not> is_sep n" "\<not> is_sep o1" "\<not> is_sep p" "\<not> is_sep q"
  shows "strip_separators ([a,b,c,d] @ ''-'' @ [e,f] @ ''-'' @ [g,h] @ ''T'' @ [i,j] @ '':'' @ [k,l]
            @ '':'' @ [m,n] @ ''.'' @ [o1,p,q] @ ''Z'')
         = [a,b,c,d,e,f,g,h,CHR ''T'',i,j,k,l,m,n,o1,p,q,CHR ''Z'']"
  using assms by (simp add: strip_separators_def is_sep_def)

lemma ext2iso_shape:
  "ext2iso [a,b,c,d,e,f,g,h,t,i,j,k,l,m,n,o1,p,q,z]
     = [a,b,c,d] @ ''-'' @ [e,f] @ ''-'' @ [g,h] @ ''T'' @ [i,j] @ '':'' @ [k,l]
            @ '':'' @ [m,n] @ ''.'' @ [o1,p,q,z]"
  by (simp add: ext2iso_def substr_def substr_from_def)

text \<open>
  C7, as the code has it: for every \<open>Date\<close> whose UTC year lies in 0..9999 (so that
  \<open>toISOString\<close> prints the 24-character form), \<open>ext2iso(parseWhen(d))\<close> is \<open>d.toISOString()\<close>.
\<close>

theorem ext2iso_parseWhen_roundtrip:
  assumes iso: "toISOString (Date t) = Inr str"
    and y: "0 \<le> YearFromTime t" "YearFromTime t \<le> 9999"
  shows "\<exists>w. parseWhen (WhenDate (Date t)) = Inr w \<and> ext2iso w = str"
proof -
  from iso y have str:
    "str = pad_digits 4 (YearFromTime t) @ ''-'' @ pad_digits 2 (MonthFromTime t) @ ''-''
           @ pad_digits 2 (DateFromTime t) @ ''T'' @ pad_digits 2 (HourFromTime t) @ '':''
           @ pad_digits 2 (MinFromTime t) @ '':'' @ pad_digits 2 (SecFromTime t) @ ''.''
           @ pad_digits 3 (msFromTime t) @ ''Z''"
    by (simp add: toISOString_def iso_year_def)
  have pw: "parseWhen (WhenDate (Date t)) = Inr (strip_separators str)"
    by (simp add: parseWhen_def iso)
  have "ext2iso (strip_separators str) = str"
    unfolding str pad_digits_2 pad_digits_3 pad_digits_4
    by (subst strip_iso_shape)
       (simp_all only: digit_not_sep not_False_eq_True ext2iso_shape append.simps)
  with pw show ?thesis by simp
qed

theorem ext2iso_parseWhen_roundtrip_witness:
  "toISOString (Date 1705326312345) = Inr ''2024-01-15T13:45:12.345Z''
   \<and> 0 \<le> YearFromTime 1705326312345 \<and> YearFromTime 1705326312345 \<le> 9999
   \<and> (\<exists>w. parseWhen (WhenDate (Date 1705326312345)) = Inr w
          \<and> ext2iso w = ''2024-01-15T13:45:12.345Z'')"
proof -
  have h1: "toISOString (Date 1705326312345) = Inr ''2024-01-15T13:45:12.345Z''"
    by code_simp
  have h2: "0 \<le> YearFromTime 1705326312345" by code_simp
  have h3: "YearFromTime 1705326312345 \<le> 9999" by code_simp
  from ext2iso_parseWhen_roundtrip [OF h1 h2 h3] h1 h2 h3 show ?thesis by blast
qed

text \<open>
  C7 as stated fails for a date of the year 10000: \<open>toISOString\<close> prints a sign and six
  digits of year, and the fixed offsets of \<open>ext2iso\<close> cut the stripped string elsewhere.
\<close>

theorem ext2iso_parseWhen_year_10000_counterexample:
  "toISOString (Date 253402300800000) = Inr ''+010000-01-01T00:00:00.000Z''
   \<and> parseWhen (WhenDate (Date 253402300800000)) = Inr ''+0100000101T000000000Z''
   \<and> ext2iso ''+0100000101T000000000Z'' = ''+010-00-00T01:T0:00.000000Z''
   \<and> ext2iso ''+0100000101T000000000Z'' \<noteq> ''+010000-01-01T00:00:00.000Z''"
  by code_simp

subsection \<open>Filters\<close>

lemma last_matching_snoc:
  "last_matching (fs @ [f]) str = (if re_match (re f) str then Some f else last_matching fs str)"
  by (simp add: last_matching_def)

lemma ignores_loop_snoc:
  "ignores_loop acc (fs @ [f]) str =
     (if re_match (re f) str then (if ftype f = ''-'' then Some f else None)
      else ignores_loop acc fs str)"
  by (induction fs arbitrary: acc) simp_all

lemma ignores_loop_last_matching:
  "ignores_loop None fs str =
     (case last_matching fs str of
        None \<Rightarrow> None
      | Some f \<Rightarrow> if ftype f = ''-'' then Some f else None)"
proof (induction fs rule: rev_induct)
  case Nil
  show ?case by (simp add: last_matching_def)
next
  case (snoc f fs)
  then show ?case by (simp add: ignores_loop_snoc last_matching_snoc)
qed

text \<open>
  C8: \<open>ignores(p)\<close> is the last filter in list order whose pattern matches \<open>p\<close> when that
  filter has type \<open>-\<close>, and null when it has another type or no filter matches; with the
  patterns \<open>-*\<close> and \<open>+keep.txt\<close>, \<open>ignores("keep.txt")\<close> is null.
\<close>

theorem ignores_last_match_wins:
  "ignores F p =
     (case filters F of
        None \<Rightarrow> None
      | Some fs \<Rightarrow>
          (case last_matching fs p of
             None \<Rightarrow> None
           | Some f \<Rightarrow> if ftype f = ''-'' then Some f else None))
   \<and> map_option (\<lambda>G. ignores G ''keep.txt'') (Filter_new (Some [''-*'', ''+keep.txt'']) None)
       = Some None"
proof (rule conjI)
  show "ignores F p =
     (case filters F of
        None \<Rightarrow> None
      | Some fs \<Rightarrow>
          (case last_matching fs p of
             None \<Rightarrow> None
           | Some f \<Rightarrow> if ftype f = ''-'' then Some f else None))"
    by (simp add: ignores_def ignores_loop_last_matching split: option.split)
  show "map_option (\<lambda>G. ignores G ''keep.txt'') (Filter_new (Some [''-*'', ''+keep.txt'']) None)
     = Some None"
    by code_simp
qed

lemma re_match_star_skip: "re_match r t \<Longrightarrow> re_match (Star a # r) t"
  by (cases t) simp_all

lemma re_match_extend: "re_match r s \<Longrightarrow> re_match r (s @ t)"
  by (induction r s rule: re_match.induct) (auto intro: re_match_star_skip)

text \<open>
  C9: a pattern is matched against a prefix of the path. The pattern \<open>-skip\<close> has no
  wildcard; its regular expression is the four literals after the anchor \<open>^\<close>, and
  \<open>ignores\<close> returns its filter for \<open>skip\<close> and for the longer path \<open>skipme.txt\<close> as well.
\<close>

theorem ignores_matches_prefix:
  "Filter_new (Some [''-skip'']) None =
     Some \<lparr> filters = Some [\<lparr> ftype = ''-'', fpattern = [''-skip''],
        re = [One (Lit CHR ''s''), One (Lit CHR ''k''), One (Lit CHR ''i''), One (Lit CHR ''p'')] \<rparr>] \<rparr>
   \<and> map_option (\<lambda>G. ignores G ''skip'') (Filter_new (Some [''-skip'']) None)
     = Some (Some \<lparr> ftype = ''-'', fpattern = [''-skip''],
        re = [One (Lit CHR ''s''), One (Lit CHR ''k''), One (Lit CHR ''i''), One (Lit CHR ''p'')] \<rparr>)
   \<and> map_option (\<lambda>G. ignores G ''skipme.txt'') (Filter_new (Some [''-skip'']) None)
     = Some (Some \<lparr> ftype = ''-'', fpattern = [''-skip''],
        re = [One (Lit CHR ''s''), One (Lit CHR ''k''), One (Lit CHR ''i''), One (Lit CHR ''p'')] \<rparr>)"
  by code_simp

subsection \<open>The byte pipe\<close>

text \<open>Once the queue is empty and the end of the stream was signalled, \<open>read\<close> returns the end marker.\<close>

lemma read_at_end:
  "chunks s = [] \<Longrightarrow> eof s \<Longrightarrow> read p s = Some (EndMarker, p, s)"
  by (simp add: read_def)

text \<open>
  C3 at the chunks \<open>[1]\<close> and \<open>[2, 3]\<close> (the second flagged last), read with buffers of two
  bytes: the first \<open>read\<close> copies the first chunk, shifts the second off the queue, finds
  that it does not fit in the one byte left and returns 1 without putting it back; the
  second \<open>read\<close> returns the end marker. The reader receives \<open>[1]\<close>, not \<open>[1, 2, 3]\<close>, and
  the counters of the pipe differ (3 bytes in, 1 byte out).
\<close>

theorem read_drops_shifted_chunk:
  "read (replicate 2 0) (writeSync [2, 3] True (writeSync [1] False getUint8Pipe))
     = Some (Count 1, [1, 0], \<lparr> chunks = [], totBytesIn = 3, totBytesOut = 1, eof = True \<rparr>)
   \<and> read (replicate 2 0) \<lparr> chunks = [], totBytesIn = 3, totBytesOut = 1, eof = True \<rparr>
     = Some (EndMarker, [0, 0], \<lparr> chunks = [], totBytesIn = 3, totBytesOut = 1, eof = True \<rparr>)
   \<and> read_until_end [2, 2, 2] (writeSync [2, 3] True (writeSync [1] False getUint8Pipe))
     = ([1], True, \<lparr> chunks = [], totBytesIn = 3, totBytesOut = 1, eof = True \<rparr>)
   \<and> concat [[1], [2, 3]] \<noteq> [1 :: byte]"
  by (simp add: getUint8Pipe_def writeSync_def read_def buf_set_def eval_nat_numeral)

subsection \<open>The object store\<close>

lemma create_file_node:
  "create_file w p = Inr w1 \<Longrightarrow> node_at w1 p = Some (RegFile [])"
  by (auto simp: create_file_def node_at_def AList.update_conv' split: option.splits fnode.splits if_splits)

lemma append_file_node:
  "node_at w p = Some (RegFile c) \<Longrightarrow> node_at (append_file w p d) p = Some (RegFile (c @ d))"
  by (auto simp: append_file_def node_at_def AList.update_conv' split: option.splits fnode.splits if_splits)

lemma fs_zip_creates:
  "fs_zip ev w from to = Inr w' \<Longrightarrow> node_at w' to \<noteq> None"
  by (auto simp: fs_zip_def append_file_node split: sum.splits dest!: create_file_node)

lemma node_at_meta_update [simp]: "node_at (w\<lparr> meta := m \<rparr>) p = node_at w p"
  by (simp add: node_at_def)

lemma fs_copy_creates:
  "fs_copy w from to = Inr w' \<Longrightarrow> node_at w' to \<noteq> None"
  by (auto simp: fs_copy_def Let_def append_file_node split: sum.splits dest!: create_file_node)

lemma create_file_faults: "create_file w p = Inr w1 \<Longrightarrow> faults w1 = faults w"
  by (auto simp: create_file_def split: option.splits fnode.splits if_splits)

lemma append_file_faults [simp]: "faults (append_file w p d) = faults w"
  by (simp add: append_file_def split: option.split fnode.split)

lemma fs_zip_faults: "fs_zip ev w from to = Inr w' \<Longrightarrow> faults w' = faults w"
  by (auto simp: fs_zip_def split: sum.splits dest!: create_file_faults)

lemma fs_copy_faults: "fs_copy w from to = Inr w' \<Longrightarrow> faults w' = faults w"
  by (auto simp: fs_copy_def Let_def split: sum.splits dest!: create_file_faults)

lemma Deno_mkdir_faults: "Deno_mkdir w p = Inr w' \<Longrightarrow> faults w' = faults w"
  by (auto simp: Deno_mkdir_def split: option.splits if_splits)

lemma mkdirp_add_faults: "mkdirp_add w parts add = Inr w' \<Longrightarrow> faults w' = faults w"
  by (induction add arbitrary: w parts) (auto split: sum.splits dest: Deno_mkdir_faults)

lemma mkdirp_faults: "mkdirp w fn = Inr w' \<Longrightarrow> faults w' = faults w"
  by (auto simp: mkdirp_def split: sum.splits dest: mkdirp_add_faults)

lemma hfs_store_faults:
  "hfs_store ev w hfs file key c = Inr w' \<Longrightarrow> faults w' = faults w"
  by (auto simp: hfs_store_def split: sum.splits if_splits
      dest!: fs_zip_faults fs_copy_faults mkdirp_faults)

lemma hfs_store_node:
  "hfs_store ev w hfs file key c = Inr w' \<Longrightarrow> node_at w' (k_path key) \<noteq> None"
  by (auto simp: hfs_store_def split: sum.splits if_splits dest: fs_zip_creates fs_copy_creates)

lemma std_exists_bool:
  "std_exists w p = Inr b \<longleftrightarrow> lookup_error w p = None \<and> b = (node_at w p \<noteq> None)"
  by (auto simp: std_exists_def lstat_def lookup_error_def split: option.splits if_splits)

text \<open>
  An object that has been stored exists: the lookup of its path was not refused before the
  store (\<open>put\<close> asks \<open>exists\<close> first), the store leaves the faults as they are, and it
  makes the file.
\<close>

lemma hfs_store_creates:
  assumes "hfs_exists w key = Inr b" "hfs_store ev w hfs file key c = Inr w'"
  shows "hfs_exists w' key = Inr True"
proof -
  from assms(1) have "lookup_error w (k_path key) = None"
    by (simp add: hfs_exists_def std_exists_bool)
  with hfs_store_faults [OF assms(2)] have "lookup_error w' (k_path key) = None"
    by (simp add: lookup_error_def split: if_splits)
  with hfs_store_node [OF assms(2)] show ?thesis
    by (simp add: hfs_exists_def std_exists_bool)
qed


text \<open>
  C2: when the key of \<open>(hash, size)\<close> exists in the store, \<open>put\<close> returns \<open>{stored: true}\<close> and
  leaves the file system as it is (\<open>store\<close> is not called, no byte is written); and whenever
  a \<open>put\<close> returns, it returns \<open>{stored: true}\<close>, and the same \<open>put\<close> again returns
  \<open>{stored: true}\<close> and leaves the file system as the first left it.
\<close>

theorem put_idempotent:
  "(bfs_hfs bfs = Some hfs \<and> hfs_exists w (getKey hfs h sz) = Inr True
      \<longrightarrow> bfs_put ev w bfs file sz h c = Inr (\<lparr> stored = True \<rparr>, w))
   \<and> (\<forall>r w'. bfs_put ev w bfs file sz h c = Inr (r, w')
      \<longrightarrow> r = \<lparr> stored = True \<rparr> \<and> bfs_put ev w' bfs file sz h c = Inr (\<lparr> stored = True \<rparr>, w'))"
proof (intro conjI impI allI)
  assume "bfs_hfs bfs = Some hfs \<and> hfs_exists w (getKey hfs h sz) = Inr True"
  then show "bfs_put ev w bfs file sz h c = Inr (\<lparr> stored = True \<rparr>, w)"
    by (simp add: bfs_put_def bfs_assert_def await_def)
next
  fix r w'
  assume put: "bfs_put ev w bfs file sz h c = Inr (r, w')"
  then obtain hfs' where hfs: "bfs_hfs bfs = Some hfs'"
    by (cases "bfs_hfs bfs") (auto simp: bfs_put_def bfs_assert_def await_def)
  from put hfs show "r = \<lparr> stored = True \<rparr>"
    by (auto simp: bfs_put_def bfs_assert_def await_def split: sum.splits if_splits)
  from put hfs have "hfs_exists w' (getKey hfs' h sz) = Inr True"
    by (auto simp: bfs_put_def bfs_assert_def await_def split: sum.splits if_splits
        dest: hfs_store_creates)
  with hfs show "bfs_put ev w' bfs file sz h c = Inr (\<lparr> stored = True \<rparr>, w')"
    by (simp add: bfs_put_def bfs_assert_def await_def)
qed

lemma demo_key_path:
  "k_path (getKey \<lparr> hfs_root = ''/backup/files.db'' \<rparr> hello_digest (Num 6)) = demo_object"
  by code_simp

lemma demo_exists:
  "hfs_exists demo_world (getKey \<lparr> hfs_root = ''/backup/files.db'' \<rparr> hello_digest (Num 6)) = Inr True"
  by code_simp

theorem put_idempotent_witness:
  "bfs_hfs demo_bfs = Some \<lparr> hfs_root = ''/backup/files.db'' \<rparr>
   \<and> hfs_exists demo_world (getKey \<lparr> hfs_root = ''/backup/files.db'' \<rparr> hello_digest (Num 6)) = Inr True
   \<and> bfs_put demo_env demo_world demo_bfs ''/src/a.txt'' (Num 6) hello_digest None
       = Inr (\<lparr> stored = True \<rparr>, demo_world)"
proof -
  have h1: "bfs_hfs demo_bfs = Some \<lparr> hfs_root = ''/backup/files.db'' \<rparr>"
    by (simp add: demo_bfs_def)
  note h2 = demo_exists
  have first: "bfs_put demo_env demo_world demo_bfs ''/src/a.txt'' (Num 6) hello_digest None
       = Inr (\<lparr> stored = True \<rparr>, demo_world)"
    using put_idempotent [THEN conjunct1, THEN mp, OF conjI [OF h1 h2]] .
  have "bfs_put demo_env demo_world demo_bfs ''/src/a.txt'' (Num 6) hello_digest None
       = Inr (\<lparr> stored = True \<rparr>, demo_world)"
    using put_idempotent [THEN conjunct2, THEN spec, THEN spec, THEN mp, OF first]
    by (rule conjunct2)
  with h1 h2 show ?thesis by (intro conjI)
qed

subsection \<open>The source walker\<close>









text \<open>
  Whenever \<open>put\<close> returns, \<open>stored\<close> is true; so every call of \<open>_backupFile\<close> that returns
  has counted its file as backed up.
\<close>

lemma bfs_put_stored:
  "bfs_put ev w bfs file sz h c = Inr (res, w') \<Longrightarrow> stored res"
  by (auto simp: bfs_put_def bfs_assert_def await_def split: sum.splits if_splits option.splits)

lemma source_log_stats:
  "source_log ev s type fn st h modified r = (r', err) \<Longrightarrow> r_stats r' = r_stats r"
  by (auto simp: source_log_def Let_def split: sum.splits if_splits prod.splits)

lemma backupFile_counts_every_file:
  assumes "backupFile ev s fn r = (r', None)"
  shows "backedUp_files (r_stats r') = backedUp_files (r_stats r) + 1
       \<and> files (r_stats r') = files (r_stats r) + 1"
proof -
  from assms have tr: "backupFile_try ev s fn r = (r', None)"
    by (auto simp: backupFile_def split: prod.splits option.splits error.splits)
  then show ?thesis
    by (auto simp: backupFile_try_def instance_put_def Let_def add_files_def add_backedUp_def
        split: sum.splits prod.splits option.splits if_splits
        dest!: source_log_stats dest: bfs_put_stored)
qed

text \<open>
  C1 at the second run over the unchanged file \<open>/src/a.txt\<close> (one folder counted already):
  \<open>_backupFile\<close> returns, \<open>fs.hash\<close> is not called, \<open>-\<close> is printed with the path, the F
  line with the hash of the last backup is appended to the running log and nothing else in
  the file system changes; the counters are then 1 file, 6 bytes and, since \<open>put\<close> answered
  \<open>{stored: true}\<close>, 1 file and 6 bytes backed up, where the claim has 0.
\<close>

theorem second_run_counts_unchanged_file:
  "(case backupFile demo_env (demo_source hello_digest) ''/src/a.txt'' demo_run of
      (r', err) \<Rightarrow>
        (err, r_stats r', r_hashed r', r_console r', read_file (r_world r') demo_running,
         nodes (r_world r')))
   = (None,
      \<lparr> skipped = 0, folders = 1, files = 1, bytes_total = 6,
        backedUp_files = 1, backedUp_bytes = 6 \<rparr>,
      [], [Line ''- /src/a.txt''],
      Inr (demo_running_text @ demo_F_line @ [CHR 0x0A]),
      demo_nodes hello (CHR 0x1F # CHR 0x8B # hello)
        @ [(demo_running, RegFile (demo_running_text @ demo_F_line @ [CHR 0x0A]))])"
  by code_simp

subsection \<open>Verify and fsck\<close>

text \<open>
  C5 at the backed-up file after its bytes on disk were changed to \<open>HELLO\<close>, newline:
  \<open>compare\<close> resolves to \<open>false\<close>, and \<open>verify\<close> with \<open>compare\<close> prints \<open>OK\<close> for the F
  record when \<open>verbose\<close> is set and nothing when it is not; no line \<open>CHANGED\<close> is printed.
\<close>

theorem verify_reports_ok_on_changed_file:
  "hfs_compare demo_env demo_world_changed
     (getKey \<lparr> hfs_root = ''/backup/files.db'' \<rparr> hello_digest (Num 6)) ''/src/a.txt'' = Inr False
   \<and> BackupInstance_verify demo_env demo_world_changed (demo_instance\<lparr> i_log := None \<rparr>)
       \<lparr> v_verbose = True, v_compare = True, v_compareWith = None \<rparr> ''20240115T120000000Z''
     = ([Line ''SOURCE /src'', Line (''OK '' @ hello_digest @ '' 6 a.txt'')], None)
   \<and> BackupInstance_verify demo_env demo_world_changed (demo_instance\<lparr> i_log := None \<rparr>)
       \<lparr> v_verbose = False, v_compare = True, v_compareWith = None \<rparr> ''20240115T120000000Z''
     = ([], None)"
  by code_simp

text \<open>
  C4 at the target of the one backed-up file: with the object intact \<open>fsck\<close> counts
  total 1, verified 1; with the object truncated to no bytes it counts total 1,
  verified 0, damaged 1, orphaned 0 and missing 1, where the claim has missing 0. The
  objects lie two directories below \<open>files.db\<close>; a larger bound on the depth gives the same.
\<close>

theorem fsck_counts_damaged_as_missing:
  "fsck 2 demo_env demo_world demo_target
     = Inr \<lparr> total = 1, verified = 1, damaged = 0, orphaned = 0, missing = 0 \<rparr>
   \<and> fsck 2 demo_env demo_world_truncated demo_target
     = Inr \<lparr> total = 1, verified = 0, damaged = 1, orphaned = 0, missing = 1 \<rparr>
   \<and> fsck 10 demo_env demo_world_truncated demo_target
     = Inr \<lparr> total = 1, verified = 0, damaged = 1, orphaned = 0, missing = 1 \<rparr>"
  by code_simp

end
